theory Spec2Isabelle
  imports Complex_Main
begin

section \<open>JavaScript values\<close>

text \<open>
  Numbers that end up in integer columns are modelled as \<open>int\<close>, a missing, \<open>undefined\<close>
  or \<open>null\<close> value as \<open>None\<close>. \<open>Math.random()\<close> is a rational in \<open>[0, 1)\<close> and the
  arithmetic on it is exact. Timestamps are milliseconds since the epoch. A route
  parameter read with \<open>parseInt\<close> is given as the result of the parse, \<open>None\<close> for \<open>NaN\<close>,
  so that \<open>!userId || isNaN(userId)\<close> holds of \<open>None\<close> and of \<open>Some 0\<close>.
\<close>

text \<open>\<open>x || null\<close> on a number: \<open>0\<close> is falsy.\<close>

definition orNull :: "int option \<Rightarrow> int option" where
  "orNull x = (case x of None \<Rightarrow> None | Some n \<Rightarrow> if n = 0 then None else Some n)"

text \<open>\<open>s || null\<close> on a string: the empty string is falsy.\<close>

definition orNullText :: "string option \<Rightarrow> string option" where
  "orNullText s = (case s of None \<Rightarrow> None | Some t \<Rightarrow> if t = [] then None else Some t)"

text \<open>Truthiness of an optional string, as in \<open>if (appleToken?.externalUserId)\<close>.\<close>

definition truthy :: "string option \<Rightarrow> bool" where
  "truthy s = (case s of None \<Rightarrow> False | Some t \<Rightarrow> t \<noteq> [])"

text \<open>Decimal text of an integer, as a template literal or \<open>toString()\<close> prints it.\<close>

fun digits :: "nat \<Rightarrow> string" where
  "digits n = (if n < 10 then [''0123456789'' ! n]
               else digits (n div 10) @ [''0123456789'' ! (n mod 10)])"

definition toString :: "int \<Rightarrow> string" where
  "toString i = (if i < 0 then CHR ''-'' # digits (nat (- i)) else digits (nat i))"

text \<open>
  \<open>x.toFixed(1)\<close>: the multiple of one tenth nearest to \<open>x\<close>, the larger one on a tie.
  The result is the number that the printed text denotes.
\<close>

definition toFixed1 :: "rat \<Rightarrow> rat" where
  "toFixed1 x = of_int \<lfloor>x * 10 + 1 / 2\<rfloor> / 10"

section \<open>Data model\<close>

text \<open>
  The biometric fields of a record. \<open>strainLevel\<close> is stored as decimal text; the model
  keeps the number that the text denotes.
\<close>

record metrics =
  deviceType :: string
  sleepScore :: "int option"
  sleepDuration :: "string option"
  strainLevel :: "rat option"
  hrv :: "int option"
  heartRate :: "int option"

record wearable_data = metrics +
  dataUserId :: int
  recordedAt :: int

record insert_wearable_token =
  userId :: int
  provider :: string
  accessToken :: string
  refreshToken :: "string option"
  externalUserId :: "string option"
  expiresAt :: "int option"

record wearable_token = insert_wearable_token +
  updatedAt :: int

text \<open>
  \<open>Partial<WearableToken>\<close> as the routes use it: \<open>None\<close> leaves the column alone. An
  \<open>updatedAt\<close> passed by a caller is overwritten by the storage and is not represented.
\<close>

record token_updates =
  setAccessToken :: "string option"
  setRefreshToken :: "string option option"
  setExternalUserId :: "string option option"
  setExpiresAt :: "int option option"

definition noUpdates :: token_updates where
  "noUpdates = \<lparr>setAccessToken = None, setRefreshToken = None,
                 setExternalUserId = None, setExpiresAt = None\<rparr>"

text \<open>Calls made to the tracker's API, in the order they are issued.\<close>

datatype whoop_call =
    RefreshAccessToken "string option"
  | GetRecoveryData string nat
  | GetSleepData string nat
  | GetCycleData string nat

text \<open>
  The state the routes act on: the two tables, the log of calls sent to the tracker and
  the server clock.
\<close>

record world =
  wearableTokens :: "wearable_token list"
  wearableData :: "wearable_data list"
  providerCalls :: "whoop_call list"
  clock :: int

section \<open>Simulated data\<close>

text \<open>The six \<open>Math.random()\<close> draws of one simulated object, in source order.\<close>

record draws =
  sleepScoreR :: rat
  hoursR :: rat
  minutesR :: rat
  strainR :: rat
  hrvR :: rat
  heartRateR :: rat

definition unitDraw :: "rat \<Rightarrow> bool" where
  "unitDraw r = (0 \<le> r \<and> r < 1)"

definition unitDraws :: "draws \<Rightarrow> bool" where
  "unitDraws d = (unitDraw (sleepScoreR d) \<and> unitDraw (hoursR d) \<and> unitDraw (minutesR d) \<and>
                  unitDraw (strainR d) \<and> unitDraw (hrvR d) \<and> unitDraw (heartRateR d))"

definition simSleepDuration :: "draws \<Rightarrow> string" where
  "simSleepDuration d =
     toString (\<lfloor>hoursR d * 2\<rfloor> + 7) @ ''h '' @ toString \<lfloor>minutesR d * 60\<rfloor> @ ''m''"

text \<open>
  The object literal of the three sites that print the strain with \<open>toFixed(1)\<close>: the demo
  authorisation of the tracker, the mock authorisation of the aggregator and the demo
  fallback of the sync.
\<close>

definition simulated :: "string \<Rightarrow> draws \<Rightarrow> metrics" where
  "simulated dev d =
     \<lparr>deviceType = dev,
      sleepScore = Some (\<lfloor>sleepScoreR d * 40\<rfloor> + 60),
      sleepDuration = Some (simSleepDuration d),
      strainLevel = Some (toFixed1 (strainR d * 15 + 5)),
      hrv = Some (\<lfloor>hrvR d * 50\<rfloor> + 25),
      heartRate = Some (\<lfloor>heartRateR d * 40\<rfloor> + 60)\<rparr>"

definition demoData :: "draws \<Rightarrow> metrics" where
  "demoData d = simulated ''whoop'' d"

text \<open>The aggregator's object of the sync: the strain is a floored integer.\<close>

definition mockData :: "draws \<Rightarrow> metrics" where
  "mockData d =
     \<lparr>deviceType = ''apple_watch'',
      sleepScore = Some (\<lfloor>sleepScoreR d * 40\<rfloor> + 60),
      sleepDuration = Some (simSleepDuration d),
      strainLevel = Some (of_int (\<lfloor>strainR d * 15\<rfloor> + 5)),
      hrv = Some (\<lfloor>hrvR d * 50\<rfloor> + 25),
      heartRate = Some (\<lfloor>heartRateR d * 40\<rfloor> + 60)\<rparr>"

section \<open>Storage\<close>

subsection \<open>DatabaseStorage\<close>

definition getWearableToken :: "world \<Rightarrow> int \<Rightarrow> string \<Rightarrow> wearable_token option" where
  "getWearableToken w uid p =
     find (\<lambda>t. userId t = uid \<and> provider t = p) (wearableTokens w)"

text \<open>The insert; \<open>updatedAt\<close> is the column's default, the time of the insert.\<close>

definition createWearableToken :: "world \<Rightarrow> insert_wearable_token \<Rightarrow> world" where
  "createWearableToken w ins =
     w\<lparr>wearableTokens := wearableTokens w @
         [\<lparr>userId = userId ins, provider = provider ins, accessToken = accessToken ins,
           refreshToken = refreshToken ins, externalUserId = externalUserId ins,
           expiresAt = expiresAt ins, updatedAt = clock w\<rparr>]\<rparr>"

definition applyUpdates :: "token_updates \<Rightarrow> int \<Rightarrow> wearable_token \<Rightarrow> wearable_token" where
  "applyUpdates u t tok =
     tok\<lparr>accessToken := (case setAccessToken u of None \<Rightarrow> accessToken tok | Some a \<Rightarrow> a),
         refreshToken := (case setRefreshToken u of None \<Rightarrow> refreshToken tok | Some r \<Rightarrow> r),
         externalUserId :=
           (case setExternalUserId u of None \<Rightarrow> externalUserId tok | Some x \<Rightarrow> x),
         expiresAt := (case setExpiresAt u of None \<Rightarrow> expiresAt tok | Some e \<Rightarrow> e),
         updatedAt := t\<rparr>"

definition updateWearableToken :: "world \<Rightarrow> int \<Rightarrow> string \<Rightarrow> token_updates \<Rightarrow> world" where
  "updateWearableToken w uid p u =
     w\<lparr>wearableTokens :=
         map (\<lambda>t. if userId t = uid \<and> provider t = p then applyUpdates u (clock w) t else t)
           (wearableTokens w)\<rparr>"

definition deleteWearableToken :: "world \<Rightarrow> int \<Rightarrow> string \<Rightarrow> world" where
  "deleteWearableToken w uid p =
     w\<lparr>wearableTokens :=
         filter (\<lambda>t. \<not> (userId t = uid \<and> provider t = p)) (wearableTokens w)\<rparr>"

text \<open>The insert of a record; \<open>recordedAt\<close> is assigned at persistence time.\<close>

definition createWearableData :: "world \<Rightarrow> int \<Rightarrow> metrics \<Rightarrow> world" where
  "createWearableData w uid m =
     w\<lparr>wearableData := wearableData w @
         [\<lparr>deviceType = deviceType m, sleepScore = sleepScore m,
           sleepDuration = sleepDuration m, strainLevel = strainLevel m, hrv = hrv m,
           heartRate = heartRate m, dataUserId = uid, recordedAt = clock w\<rparr>]\<rparr>"

subsection \<open>MemStorage\<close>

record mem_storage =
  memWearableData :: "nat \<rightharpoonup> wearable_data"
  currentWearableDataId :: nat

definition memCreateWearableData ::
  "mem_storage \<Rightarrow> int \<Rightarrow> int \<Rightarrow> metrics \<Rightarrow> wearable_data \<times> mem_storage" where
  "memCreateWearableData s t uid insertData =
     (let ident = currentWearableDataId s;
          row = \<lparr>deviceType = deviceType insertData,
                 sleepScore = orNull (sleepScore insertData),
                 sleepDuration = orNullText (sleepDuration insertData),
                 strainLevel = strainLevel insertData,
                 hrv = orNull (hrv insertData),
                 heartRate = orNull (heartRate insertData),
                 dataUserId = uid, recordedAt = t\<rparr>
      in (row, s\<lparr>memWearableData := (memWearableData s)(ident \<mapsto> row),
                 currentWearableDataId := ident + 1\<rparr>))"

section \<open>Collaborators\<close>

text \<open>A provider payload, as the JSON text received.\<close>

type_synonym raw_payload = string

text \<open>The token pair and relative expiry (a lifetime in seconds) of a refresh.\<close>

record refreshed_tokens =
  access_token :: string
  refresh_token :: string
  expires_in :: nat

text \<open>The storage calls of the modelled routes, one name per call site.\<close>

datatype db_call =
    DemoGetToken | DemoUpdateToken | DemoCreateToken | DemoCreateData
  | PassportGetToken | PassportUpdateToken | PassportCreateToken
  | MockGetToken | MockUpdateToken | MockCreateToken | MockCreateData
  | CallbackGetToken | CallbackUpdateToken | CallbackCreateToken
  | WebhookGetToken | WebhookCreateData
  | DisconnectDeleteToken
  | SyncGetWhoopToken | SyncUpdateRefreshed | SyncCreateReal | SyncCreateDemo
  | SyncTouchToken | SyncGetAppleToken | SyncCreateMock
  | StatusGetWhoopToken | StatusGetAppleToken

text \<open>The sites that draw simulated data.\<close>

datatype sim_site = DemoAuthDraws | MockAuthDraws | SyncDemoDraws | SyncMockDraws

text \<open>
  Everything a request depends on beyond the stored state. \<open>WHOOPIntegration\<close> and
  \<open>WearableDataTransformer\<close> live in \<open>services/wearableIntegration\<close>, which is not among
  the sources: their results are parameters, \<open>Inl\<close> carrying the message of a thrown
  error. \<open>dbThrows\<close> tells which storage calls reject, and with which message.
\<close>

record env =
  dbThrows :: "db_call \<Rightarrow> string option"
  refreshLatency :: nat
  refreshAccessToken :: "string option \<Rightarrow> string + refreshed_tokens"
  getRecoveryData :: "string \<Rightarrow> nat \<Rightarrow> string + raw_payload"
  getSleepData :: "string \<Rightarrow> nat \<Rightarrow> string + raw_payload"
  getCycleData :: "string \<Rightarrow> nat \<Rightarrow> string + raw_payload"
  transformWHOOPData :: "raw_payload \<Rightarrow> raw_payload \<Rightarrow> raw_payload \<Rightarrow> string + metrics"
  transformAppleHealthData ::
    "raw_payload option \<Rightarrow> raw_payload option \<Rightarrow> raw_payload option \<Rightarrow> string + metrics"
  mathRandom :: "sim_site \<Rightarrow> draws"

section \<open>Responses\<close>

datatype outcome_detail = Data metrics | ErrorMessage string

text \<open>One entry of \<open>results\<close>: \<open>{ provider, status, data }\<close> or \<open>{ provider, status, error }\<close>.\<close>

record sync_outcome =
  outcomeProvider :: string
  status :: string
  detail :: outcome_detail

record provider_status =
  connected_p :: bool
  lastSync :: "int option"
  needsReauth :: bool

record wearable_status =
  whoop :: provider_status
  apple_health :: provider_status

datatype body =
    ErrorBody string
  | MessageBody string
  | SuccessBody string
  | Html string
  | SyncBody "sync_outcome list"
  | StatusBody wearable_status

type_synonym response = "nat \<times> body"

section \<open>Routes\<close>

text \<open>
  The object literal that the real-data branch of the sync and the webhook hand to
  \<open>createWearableData\<close>. \<open>strainLevel?.toString() || null\<close> keeps every number, since
  the text of a number is never empty.
\<close>

definition nullable :: "metrics \<Rightarrow> metrics" where
  "nullable transformedData =
     \<lparr>deviceType = deviceType transformedData,
      sleepScore = orNull (sleepScore transformedData),
      sleepDuration = orNullText (sleepDuration transformedData),
      strainLevel = strainLevel transformedData,
      hrv = orNull (hrv transformedData),
      heartRate = orNull (heartRate transformedData)\<rparr>"

definition isStale :: "int \<Rightarrow> wearable_token \<Rightarrow> bool" where
  "isStale t tok = (case expiresAt tok of None \<Rightarrow> False | Some e \<Rightarrow> e < t)"

definition yearMs :: int where
  "yearMs = 365 * 24 * 60 * 60 * 1000"

subsection \<open>GET /api/auth/whoop/demo\<close>

text \<open>The argument is \<open>parseInt(req.query.userId)\<close>; the 400 message also quotes the query text.\<close>

definition whoopDemoAuth :: "env \<Rightarrow> world \<Rightarrow> int option \<Rightarrow> response \<times> world" where
  "whoopDemoAuth env w userIdParam =
     (case userIdParam of
        None \<Rightarrow> ((400, ErrorBody ''Invalid user ID''), w)
      | Some uid \<Rightarrow>
          if uid \<le> 0 then ((400, ErrorBody ''Invalid user ID''), w)
          else
            (case dbThrows env DemoGetToken of
               Some e \<Rightarrow> ((500, ErrorBody ''Failed to connect WHOOP demo''), w)
             | None \<Rightarrow>
                 (case (case getWearableToken w uid ''whoop'' of
                          Some existingToken \<Rightarrow>
                            (case dbThrows env DemoUpdateToken of
                               Some e \<Rightarrow> Inl e
                             | None \<Rightarrow>
                                 Inr (updateWearableToken w uid ''whoop''
                                   \<lparr>setAccessToken = Some ''demo_whoop_token'',
                                    setRefreshToken = Some (Some ''demo_refresh_token''),
                                    setExternalUserId = None,
                                    setExpiresAt = Some (Some (clock w + yearMs))\<rparr>))
                        | None \<Rightarrow>
                            (case dbThrows env DemoCreateToken of
                               Some e \<Rightarrow> Inl e
                             | None \<Rightarrow>
                                 Inr (createWearableToken w
                                   \<lparr>userId = uid, provider = ''whoop'',
                                    accessToken = ''demo_whoop_token'',
                                    refreshToken = Some ''demo_refresh_token'',
                                    externalUserId = Some (''demo_whoop_'' @ toString uid),
                                    expiresAt = Some (clock w + yearMs)\<rparr>))) of
                    Inl e \<Rightarrow> ((500, ErrorBody ''Failed to connect WHOOP demo''), w)
                  | Inr w1 \<Rightarrow>
                      (case dbThrows env DemoCreateData of
                         Some e \<Rightarrow> ((500, ErrorBody ''Failed to connect WHOOP demo''), w1)
                       | None \<Rightarrow>
                           ((200, Html ''WHOOP Connected''),
                            createWearableData w1 uid
                              (simulated ''whoop'' (mathRandom env DemoAuthDraws)))))))"

subsection \<open>The Passport verify callback of the tracker\<close>

text \<open>
  \<open>handleAuthentication\<close>: the user is always 1. The result is \<open>done(null, user)\<close>
  (\<open>None\<close>) or \<open>done(error, null)\<close> (the message).
\<close>

definition handleAuthentication ::
  "env \<Rightarrow> world \<Rightarrow> string \<Rightarrow> string \<Rightarrow> nat \<Rightarrow> int \<Rightarrow> string option \<times> world" where
  "handleAuthentication env w accessTok refreshTok expiresIn profileUserId =
     (let expiry = clock w + int expiresIn * 1000; uid = 1
      in case dbThrows env PassportGetToken of
           Some e \<Rightarrow> (Some e, w)
         | None \<Rightarrow>
             (case getWearableToken w uid ''whoop'' of
                Some existingToken \<Rightarrow>
                  (case dbThrows env PassportUpdateToken of
                     Some e \<Rightarrow> (Some e, w)
                   | None \<Rightarrow>
                       (None, updateWearableToken w uid ''whoop''
                          \<lparr>setAccessToken = Some accessTok,
                           setRefreshToken = Some (Some refreshTok),
                           setExternalUserId = Some (Some (toString profileUserId)),
                           setExpiresAt = Some (Some expiry)\<rparr>))
              | None \<Rightarrow>
                  (case dbThrows env PassportCreateToken of
                     Some e \<Rightarrow> (Some e, w)
                   | None \<Rightarrow>
                       (None, createWearableToken w
                          \<lparr>userId = uid, provider = ''whoop'', accessToken = accessTok,
                           refreshToken = Some refreshTok,
                           externalUserId = Some (toString profileUserId),
                           expiresAt = Some expiry\<rparr>))))"

subsection \<open>GET /api/auth/apple/mock\<close>

definition appleMockAuth :: "env \<Rightarrow> world \<Rightarrow> int option \<Rightarrow> response \<times> world" where
  "appleMockAuth env w userIdParam =
     (case userIdParam of
        None \<Rightarrow> ((400, ErrorBody ''Invalid user ID''), w)
      | Some uid \<Rightarrow>
          if uid = 0 then ((400, ErrorBody ''Invalid user ID''), w)
          else
            (let mockTerraUserId = ''mock_apple_'' @ toString uid @ ''_'' @ toString (clock w)
             in case dbThrows env MockGetToken of
                  Some e \<Rightarrow> ((500, ErrorBody ''Failed to connect Apple Health''), w)
                | None \<Rightarrow>
                    (case (case getWearableToken w uid ''apple_health'' of
                             Some existingToken \<Rightarrow>
                               (case dbThrows env MockUpdateToken of
                                  Some e \<Rightarrow> Inl e
                                | None \<Rightarrow>
                                    Inr (updateWearableToken w uid ''apple_health''
                                      \<lparr>setAccessToken = Some ''mock_apple_authenticated'',
                                       setRefreshToken = None,
                                       setExternalUserId = Some (Some mockTerraUserId),
                                       setExpiresAt = None\<rparr>))
                           | None \<Rightarrow>
                               (case dbThrows env MockCreateToken of
                                  Some e \<Rightarrow> Inl e
                                | None \<Rightarrow>
                                    Inr (createWearableToken w
                                      \<lparr>userId = uid, provider = ''apple_health'',
                                       accessToken = ''mock_apple_authenticated'',
                                       refreshToken = None,
                                       externalUserId = Some mockTerraUserId,
                                       expiresAt = None\<rparr>))) of
                       Inl e \<Rightarrow> ((500, ErrorBody ''Failed to connect Apple Health''), w)
                     | Inr w1 \<Rightarrow>
                         (case dbThrows env MockCreateData of
                            Some e \<Rightarrow> ((500, ErrorBody ''Failed to connect Apple Health''), w1)
                          | None \<Rightarrow>
                              ((200, Html ''Apple Health Connected''),
                               createWearableData w1 uid
                                 (simulated ''apple_watch'' (mathRandom env MockAuthDraws)))))))"

subsection \<open>POST /api/auth/apple/callback\<close>

text \<open>
  The body: \<open>cbUserId\<close> is \<open>user_id\<close> (\<open>None\<close> when the body has none, which an update
  leaves alone and an insert stores as null); \<open>cbState\<close> is \<open>None\<close> when the body has no
  \<open>state\<close> (the \<open>replace\<close> then throws) and otherwise the result of
  \<open>parseInt(state.replace('apple_', ''))\<close>.
\<close>

record apple_callback =
  cbUserId :: "string option"
  cbStatus :: "string option"
  cbState :: "int option option"

definition appleCallback :: "env \<Rightarrow> world \<Rightarrow> apple_callback \<Rightarrow> response \<times> world" where
  "appleCallback env w b =
     (if cbStatus b \<noteq> Some ''success''
      then ((400, ErrorBody ''Apple Health authentication failed''), w)
      else
        (case cbState b of
           None \<Rightarrow> ((500, ErrorBody ''Failed to process Apple Health authentication''), w)
         | Some None \<Rightarrow> ((400, ErrorBody ''Invalid state parameter''), w)
         | Some (Some uid) \<Rightarrow>
             if uid = 0 then ((400, ErrorBody ''Invalid state parameter''), w)
             else
               (case dbThrows env CallbackGetToken of
                     Some e \<Rightarrow>
                       ((500, ErrorBody ''Failed to process Apple Health authentication''), w)
                   | None \<Rightarrow>
                       (case getWearableToken w uid ''apple_health'' of
                          Some existingToken \<Rightarrow>
                            (case dbThrows env CallbackUpdateToken of
                               Some e \<Rightarrow>
                                 ((500,
                                   ErrorBody ''Failed to process Apple Health authentication''),
                                  w)
                             | None \<Rightarrow>
                                 ((200, SuccessBody ''Apple Health connected successfully''),
                                  updateWearableToken w uid ''apple_health''
                                    \<lparr>setAccessToken = Some ''terra_authenticated'',
                                     setRefreshToken = None,
                                     setExternalUserId = map_option Some (cbUserId b),
                                     setExpiresAt = None\<rparr>))
                        | None \<Rightarrow>
                            (case dbThrows env CallbackCreateToken of
                               Some e \<Rightarrow>
                                 ((500,
                                   ErrorBody ''Failed to process Apple Health authentication''),
                                  w)
                             | None \<Rightarrow>
                                 ((200, SuccessBody ''Apple Health connected successfully''),
                                  createWearableToken w
                                    \<lparr>userId = uid, provider = ''apple_health'',
                                     accessToken = ''terra_authenticated'',
                                     refreshToken = None,
                                     externalUserId = cbUserId b,
                                     expiresAt = None\<rparr>))))))"

subsection \<open>POST /api/terra/webhook\<close>

text \<open>
  \<open>{ type, user, data }\<close> of the body. \<open>user_id\<close> has the type of the \<open>userId\<close> parameter
  of \<open>getWearableToken\<close>, to which the route passes it.
\<close>

record terra_user =
  user_id :: int

record terra_event =
  eventType :: string
  eventUser :: "terra_user option"
  eventData :: raw_payload

definition terraWebhook :: "env \<Rightarrow> world \<Rightarrow> terra_event \<Rightarrow> response \<times> world" where
  "terraWebhook env w ev =
     (if eventType ev = ''body'' \<or> eventType ev = ''daily'' \<or> eventType ev = ''sleep'' then
        (case eventUser ev of
           None \<Rightarrow> ((500, ErrorBody ''Failed to process webhook''), w)
         | Some u \<Rightarrow>
             (case dbThrows env WebhookGetToken of
                Some e \<Rightarrow> ((500, ErrorBody ''Failed to process webhook''), w)
              | None \<Rightarrow>
                  (case getWearableToken w (user_id u) ''apple_health'' of
                     None \<Rightarrow> ((200, MessageBody ''User not found, ignoring webhook''), w)
                   | Some userToken \<Rightarrow>
                       (case transformAppleHealthData env
                               (if eventType ev = ''sleep'' then Some (eventData ev) else None)
                               (if eventType ev = ''daily'' then Some (eventData ev) else None)
                               (if eventType ev = ''body'' then Some (eventData ev) else None) of
                          Inl e \<Rightarrow> ((500, ErrorBody ''Failed to process webhook''), w)
                        | Inr transformedData \<Rightarrow>
                            (case dbThrows env WebhookCreateData of
                               Some e \<Rightarrow> ((500, ErrorBody ''Failed to process webhook''), w)
                             | None \<Rightarrow>
                                 ((200, MessageBody ''Webhook processed successfully''),
                                  createWearableData w (userId userToken)
                                    (nullable transformedData)))))))
      else ((200, MessageBody ''Webhook processed successfully''), w))"

subsection \<open>DELETE /api/auth/:provider/:userId\<close>

definition disconnect :: "env \<Rightarrow> world \<Rightarrow> string \<Rightarrow> int option \<Rightarrow> response \<times> world" where
  "disconnect env w prov userIdParam =
     (case userIdParam of
        None \<Rightarrow> ((400, ErrorBody ''Invalid user ID''), w)
      | Some userIdNum \<Rightarrow>
          if userIdNum = 0 then ((400, ErrorBody ''Invalid user ID''), w)
          else if prov \<notin> set [''whoop'', ''apple_health'']
          then ((400, ErrorBody ''Invalid provider''), w)
          else
            (case dbThrows env DisconnectDeleteToken of
               Some e \<Rightarrow> ((500, ErrorBody ''Failed to disconnect device''), w)
             | None \<Rightarrow>
                 ((200, SuccessBody (prov @ '' disconnected successfully'')),
                  deleteWearableToken w userIdNum prov)))"

subsection \<open>POST /api/sync/:userId\<close>

definition failed :: "string \<Rightarrow> string \<Rightarrow> sync_outcome" where
  "failed p e = \<lparr>outcomeProvider = p, status = ''error'', detail = ErrorMessage e\<rparr>"

definition succeeded :: "string \<Rightarrow> metrics \<Rightarrow> sync_outcome" where
  "succeeded p m = \<lparr>outcomeProvider = p, status = ''success'', detail = Data m\<rparr>"

text \<open>The call of \<open>WHOOPIntegration.refreshAccessToken\<close>: it is logged and takes time.\<close>

definition callRefresh ::
  "env \<Rightarrow> world \<Rightarrow> string option \<Rightarrow> (string + refreshed_tokens) \<times> world" where
  "callRefresh env w rt =
     (refreshAccessToken env rt,
      w\<lparr>providerCalls := providerCalls w @ [RefreshAccessToken rt],
        clock := clock w + int (refreshLatency env)\<rparr>)"

text \<open>
  The refresh check. The result is the access token to go on with, or the message of
  the error thrown to the outer \<open>catch\<close>.
\<close>

definition syncWhoopRefresh ::
  "env \<Rightarrow> world \<Rightarrow> int \<Rightarrow> wearable_token \<Rightarrow> (string + string) \<times> world" where
  "syncWhoopRefresh env w uid whoopToken =
     (if isStale (clock w) whoopToken then
        (case callRefresh env w (refreshToken whoopToken) of
           (Inl e, w1) \<Rightarrow> (Inl e, w1)
         | (Inr refreshedTokens, w1) \<Rightarrow>
             (let newExpiresAt = clock w1 + int (expires_in refreshedTokens) * 1000
              in case dbThrows env SyncUpdateRefreshed of
                   Some e \<Rightarrow> (Inl e, w1)
                 | None \<Rightarrow>
                     (Inr (access_token refreshedTokens),
                      updateWearableToken w1 uid ''whoop''
                        \<lparr>setAccessToken = Some (access_token refreshedTokens),
                         setRefreshToken = Some (Some (refresh_token refreshedTokens)),
                         setExternalUserId = None,
                         setExpiresAt = Some (Some newExpiresAt)\<rparr>)))
      else (Inr (accessToken whoopToken), w))"

text \<open>
  The inner \<open>try\<close>: the three fetches of \<open>Promise.all\<close> and the transformer
  (\<open>fetchMetrics\<close>), then the insert. \<open>None\<close> when any of them throws, which the inner
  \<open>catch\<close> only logs.
\<close>

definition fetchMetrics :: "env \<Rightarrow> string \<Rightarrow> metrics option" where
  "fetchMetrics env tok =
     (case (getRecoveryData env tok 1, getSleepData env tok 1, getCycleData env tok 1) of
        (Inr recoveryData, Inr sleepData, Inr cycleData) \<Rightarrow>
          (case transformWHOOPData env recoveryData sleepData cycleData of
             Inl e \<Rightarrow> None
           | Inr transformedData \<Rightarrow> Some transformedData)
      | _ \<Rightarrow> None)"

definition syncWhoopReal :: "env \<Rightarrow> world \<Rightarrow> int \<Rightarrow> string \<Rightarrow> metrics option \<times> world" where
  "syncWhoopReal env w uid tok =
     (let w1 = w\<lparr>providerCalls := providerCalls w @
                  [GetRecoveryData tok 1, GetSleepData tok 1, GetCycleData tok 1]\<rparr>
      in case fetchMetrics env tok of
           None \<Rightarrow> (None, w1)
         | Some transformedData \<Rightarrow>
             (case dbThrows env SyncCreateReal of
                Some e \<Rightarrow> (None, w1)
              | None \<Rightarrow>
                  (Some transformedData,
                   createWearableData w1 uid (nullable transformedData))))"

text \<open>The demo fallback, entered when \<open>results\<close> holds no success for the tracker.\<close>

definition syncWhoopDemo :: "env \<Rightarrow> world \<Rightarrow> int \<Rightarrow> sync_outcome list \<times> world" where
  "syncWhoopDemo env w uid =
     (let demo = demoData (mathRandom env SyncDemoDraws)
      in case dbThrows env SyncCreateDemo of
           Some e \<Rightarrow> ([failed ''whoop'' e], w)
         | None \<Rightarrow>
             (let w1 = createWearableData w uid demo
              in case dbThrows env SyncTouchToken of
                   Some e \<Rightarrow> ([failed ''whoop'' e], w1)
                 | None \<Rightarrow>
                     ([succeeded ''whoop'' demo],
                      updateWearableToken w1 uid ''whoop'' noUpdates)))"

definition syncWhoop ::
  "env \<Rightarrow> world \<Rightarrow> int \<Rightarrow> wearable_token \<Rightarrow> sync_outcome list \<times> world" where
  "syncWhoop env w uid whoopToken =
     (case syncWhoopRefresh env w uid whoopToken of
        (Inl e, w1) \<Rightarrow> ([failed ''whoop'' e], w1)
      | (Inr tok, w1) \<Rightarrow>
          (case syncWhoopReal env w1 uid tok of
             (Some transformedData, w2) \<Rightarrow> ([succeeded ''whoop'' transformedData], w2)
           | (None, w2) \<Rightarrow> syncWhoopDemo env w2 uid))"

definition syncApple ::
  "env \<Rightarrow> world \<Rightarrow> int \<Rightarrow> wearable_token \<Rightarrow> sync_outcome list \<times> world" where
  "syncApple env w uid appleToken =
     (if truthy (externalUserId appleToken) then
        (let mock = mockData (mathRandom env SyncMockDraws)
         in case dbThrows env SyncCreateMock of
              Some e \<Rightarrow> ([failed ''apple_health'' e], w)
            | None \<Rightarrow> ([succeeded ''apple_health'' mock], createWearableData w uid mock))
      else ([], w))"

definition sync :: "env \<Rightarrow> world \<Rightarrow> int option \<Rightarrow> response \<times> world" where
  "sync env w userIdParam =
     (case userIdParam of
        None \<Rightarrow> ((400, ErrorBody ''Invalid user ID''), w)
      | Some uid \<Rightarrow>
          if uid = 0 then ((400, ErrorBody ''Invalid user ID''), w)
          else
            (case dbThrows env SyncGetWhoopToken of
               Some e \<Rightarrow> ((500, ErrorBody ''Failed to sync wearable data''), w)
             | None \<Rightarrow>
                 (let (results1, w1) =
                        (case getWearableToken w uid ''whoop'' of
                           None \<Rightarrow> ([], w)
                         | Some whoopToken \<Rightarrow> syncWhoop env w uid whoopToken)
                  in case dbThrows env SyncGetAppleToken of
                       Some e \<Rightarrow> ((500, ErrorBody ''Failed to sync wearable data''), w1)
                     | None \<Rightarrow>
                         (let (results2, w2) =
                                (case getWearableToken w1 uid ''apple_health'' of
                                   None \<Rightarrow> ([], w1)
                                 | Some appleToken \<Rightarrow> syncApple env w1 uid appleToken)
                          in ((200, SyncBody (results1 @ results2)), w2)))))"

subsection \<open>GET /api/wearable-status/:userId\<close>

definition wearableStatus :: "env \<Rightarrow> world \<Rightarrow> int option \<Rightarrow> response" where
  "wearableStatus env w userIdParam =
     (case userIdParam of
        None \<Rightarrow> (400, ErrorBody ''Invalid user ID'')
      | Some uid \<Rightarrow>
          if uid = 0 then (400, ErrorBody ''Invalid user ID'')
          else
            (case (dbThrows env StatusGetWhoopToken, dbThrows env StatusGetAppleToken) of
               (None, None) \<Rightarrow>
                 (let whoopToken = getWearableToken w uid ''whoop'';
                      appleToken = getWearableToken w uid ''apple_health''
                  in (200, StatusBody
                       \<lparr>whoop =
                          \<lparr>connected_p = (whoopToken \<noteq> None),
                           lastSync = map_option updatedAt whoopToken,
                           needsReauth =
                             (case whoopToken of
                                None \<Rightarrow> False
                              | Some t \<Rightarrow> isStale (clock w) t)\<rparr>,
                        apple_health =
                          \<lparr>connected_p = (appleToken \<noteq> None),
                           lastSync = map_option updatedAt appleToken,
                           needsReauth = False\<rparr>\<rparr>))
             | _ \<Rightarrow> (500, ErrorBody ''Failed to check connection status'')))"

section \<open>Reachable states\<close>

text \<open>
  The states the routes can produce from empty tables, with any collaborator behaviour at
  each request, any passage of time between requests and every \<open>Math.random()\<close> in
  \<open>[0, 1)\<close>.
\<close>

inductive reachable :: "world \<Rightarrow> bool" where
  initial: "reachable \<lparr>wearableTokens = [], wearableData = [], providerCalls = [], clock = t\<rparr>"
| elapse: "reachable w \<Longrightarrow> reachable (w\<lparr>clock := clock w + int n\<rparr>)"
| whoopDemoAuth:
    "reachable w \<Longrightarrow> unitDraws (mathRandom env DemoAuthDraws) \<Longrightarrow>
     reachable (snd (whoopDemoAuth env w p))"
| handleAuthentication:
    "reachable w \<Longrightarrow> reachable (snd (handleAuthentication env w a r n x))"
| appleMockAuth:
    "reachable w \<Longrightarrow> unitDraws (mathRandom env MockAuthDraws) \<Longrightarrow>
     reachable (snd (appleMockAuth env w p))"
| appleCallback: "reachable w \<Longrightarrow> reachable (snd (appleCallback env w b))"
| terraWebhook: "reachable w \<Longrightarrow> reachable (snd (terraWebhook env w ev))"
| disconnect: "reachable w \<Longrightarrow> reachable (snd (disconnect env w prov p))"
| sync:
    "reachable w \<Longrightarrow> unitDraws (mathRandom env SyncDemoDraws) \<Longrightarrow>
     unitDraws (mathRandom env SyncMockDraws) \<Longrightarrow> reachable (snd (sync env w p))"

section \<open>Vocabulary of the properties\<close>

subsection \<open>Ranges of simulated values\<close>

definition inRange :: "int \<Rightarrow> int \<Rightarrow> int option \<Rightarrow> bool" where
  "inRange lo hi v = (case v of None \<Rightarrow> False | Some n \<Rightarrow> lo \<le> n \<and> n \<le> hi)"

text \<open>A duration text of 7 to 8 hours and 0 to 59 minutes.\<close>

definition sleepDurationOk :: "string \<Rightarrow> bool" where
  "sleepDurationOk t =
     (\<exists>h\<in>{7..8}. \<exists>m\<in>{0..59}. t = toString h @ ''h '' @ toString m @ ''m'')"

text \<open>A value with one decimal between 5.0 and \<open>hi\<close>.\<close>

definition strainOk :: "rat \<Rightarrow> rat \<Rightarrow> bool" where
  "strainOk hi x = (of_int \<lfloor>x * 10\<rfloor> = x * 10 \<and> 5 \<le> x \<and> x \<le> hi)"

text \<open>
  The ranges of simulated values with the top of the strain range left open:
  sleep score 60 to 99, HRV 25 to 74, heart rate 60 to 99.
\<close>

definition withinRanges :: "rat \<Rightarrow> metrics \<Rightarrow> bool" where
  "withinRanges hi m =
     (inRange 60 99 (sleepScore m) \<and>
      (case sleepDuration m of None \<Rightarrow> False | Some t \<Rightarrow> sleepDurationOk t) \<and>
      (case strainLevel m of None \<Rightarrow> False | Some x \<Rightarrow> strainOk hi x) \<and>
      inRange 25 74 (hrv m) \<and>
      inRange 60 99 (heartRate m))"

text \<open>The ranges as documented, with the strain level from 5.0 to 19.9.\<close>

definition documentedRanges :: "metrics \<Rightarrow> bool" where
  "documentedRanges m = withinRanges (199 / 10) m"

subsection \<open>Concrete inputs\<close>

text \<open>Draws whose strain draw is \<open>1023 / 1024 = 0.9990234375\<close>.\<close>

definition edgeDraws :: draws where
  "edgeDraws = \<lparr>sleepScoreR = 0, hoursR = 1 / 2, minutesR = 3 / 4,
                 strainR = 1023 / 1024, hrvR = 1 / 4, heartRateR = 1 / 8\<rparr>"

text \<open>A transformer result that carries sleep fields only.\<close>

definition sleepOnly :: metrics where
  "sleepOnly = \<lparr>deviceType = ''apple_watch'', sleepScore = Some 82,
                 sleepDuration = Some ''7h 42m'', strainLevel = None, hrv = None,
                 heartRate = None\<rparr>"

text \<open>
  The storage works, the tracker rejects the refresh token and answers every fetch with
  an error, the aggregator's transformer yields \<open>sleepOnly\<close>.
\<close>

definition offlineEnv :: env where
  "offlineEnv =
     \<lparr>dbThrows = (\<lambda>c. None), refreshLatency = 250,
      refreshAccessToken = (\<lambda>rt. Inl ''invalid_grant''),
      getRecoveryData = (\<lambda>tok n. Inl ''WHOOP API error: 503''),
      getSleepData = (\<lambda>tok n. Inl ''WHOOP API error: 503''),
      getCycleData = (\<lambda>tok n. Inl ''WHOOP API error: 503''),
      transformWHOOPData = (\<lambda>r s c. Inl ''no data''),
      transformAppleHealthData = (\<lambda>s d b. Inr sleepOnly),
      mathRandom = (\<lambda>site. edgeDraws)\<rparr>"

text \<open>User 7 has connected the aggregator; the platform knows the user as \<open>terra-abc\<close>.\<close>

definition appleToken7 :: wearable_token where
  "appleToken7 =
     \<lparr>userId = 7, provider = ''apple_health'', accessToken = ''terra_authenticated'',
      refreshToken = None, externalUserId = Some ''terra-abc'', expiresAt = None,
      updatedAt = 1000\<rparr>"

definition appleWorld :: world where
  "appleWorld =
     \<lparr>wearableTokens = [appleToken7], wearableData = [], providerCalls = [], clock = 5000\<rparr>"

definition sleepEvent :: "terra_user option \<Rightarrow> terra_event" where
  "sleepEvent u = \<lparr>eventType = ''sleep'', eventUser = u, eventData = ''{}''\<rparr>"

subsection \<open>Webhook\<close>

text \<open>
  The resolution as the specification words it: the aggregator Credential whose
  \<open>externalUserId\<close> is the identifier carried by the event.
\<close>

definition findByExternalUserId :: "world \<Rightarrow> string \<Rightarrow> wearable_token option" where
  "findByExternalUserId w x =
     find (\<lambda>t. provider t = ''apple_health'' \<and> externalUserId t = Some x) (wearableTokens w)"

text \<open>
  The handler raises: an event of one of the three categories has no \<open>user\<close>, or the
  lookup rejects, or a Credential is found and the transformer or the insert throws.
\<close>

definition webhookRaises :: "env \<Rightarrow> world \<Rightarrow> terra_event \<Rightarrow> bool" where
  "webhookRaises env w ev =
     (eventType ev \<in> {''body'', ''daily'', ''sleep''} \<and>
      (case eventUser ev of
         None \<Rightarrow> True
       | Some u \<Rightarrow>
           dbThrows env WebhookGetToken \<noteq> None \<or>
           (getWearableToken w (user_id u) ''apple_health'' \<noteq> None \<and>
            (isl (transformAppleHealthData env
                    (if eventType ev = ''sleep'' then Some (eventData ev) else None)
                    (if eventType ev = ''daily'' then Some (eventData ev) else None)
                    (if eventType ev = ''body'' then Some (eventData ev) else None)) \<or>
             dbThrows env WebhookCreateData \<noteq> None))))"

subsection \<open>Sync\<close>

text \<open>
  The providers a sync produces an outcome for: the tracker when it has a Credential, the
  aggregator when it has a Credential with a non-empty \<open>externalUserId\<close>.
\<close>

definition connectedProviders :: "world \<Rightarrow> int \<Rightarrow> string list" where
  "connectedProviders w uid =
     (case getWearableToken w uid ''whoop'' of None \<Rightarrow> [] | Some t \<Rightarrow> [''whoop'']) @
     (case getWearableToken w uid ''apple_health'' of
        None \<Rightarrow> []
      | Some a \<Rightarrow> if truthy (externalUserId a) then [''apple_health''] else [])"

text \<open>The columns of a Credential other than \<open>updatedAt\<close>.\<close>

definition credential :: "wearable_token \<Rightarrow> insert_wearable_token" where
  "credential t =
     \<lparr>userId = userId t, provider = provider t, accessToken = accessToken t,
      refreshToken = refreshToken t, externalUserId = externalUserId t,
      expiresAt = expiresAt t\<rparr>"

text \<open>
  The access token the metrics are fetched with: the stored one, or the refreshed one when
  the Credential is stale; \<open>None\<close> when the refresh or the update that follows it throws.
\<close>

definition tokenInUse :: "env \<Rightarrow> world \<Rightarrow> wearable_token \<Rightarrow> string option" where
  "tokenInUse env w tok =
     (if isStale (clock w) tok then
        (case refreshAccessToken env (refreshToken tok) of
           Inl e \<Rightarrow> None
         | Inr r \<Rightarrow>
             (case dbThrows env SyncUpdateRefreshed of
                Some e \<Rightarrow> None
              | None \<Rightarrow> Some (access_token r)))
      else Some (accessToken tok))"

text \<open>The row that \<open>createWearableData\<close> appends for a user at a time.\<close>

definition rowOf :: "int \<Rightarrow> int \<Rightarrow> metrics \<Rightarrow> wearable_data" where
  "rowOf uid t m =
     \<lparr>deviceType = deviceType m, sleepScore = sleepScore m, sleepDuration = sleepDuration m,
      strainLevel = strainLevel m, hrv = hrv m, heartRate = heartRate m, dataUserId = uid,
      recordedAt = t\<rparr>"

subsection \<open>Concrete inputs of the sync\<close>

definition refreshedPair :: refreshed_tokens where
  "refreshedPair = \<lparr>access_token = ''a2'', refresh_token = ''r2'', expires_in = 3600\<rparr>"

text \<open>As \<open>offlineEnv\<close>, but the tracker accepts the refresh token.\<close>

definition refreshingEnv :: env where
  "refreshingEnv = offlineEnv\<lparr>refreshAccessToken := (\<lambda>rt. Inr refreshedPair)\<rparr>"

text \<open>The tracker Credential of user 1, expired at time 4000.\<close>

definition whoopToken1 :: wearable_token where
  "whoopToken1 =
     \<lparr>userId = 1, provider = ''whoop'', accessToken = ''a1'', refreshToken = Some ''r1'',
      externalUserId = Some ''12345'', expiresAt = Some 4000, updatedAt = 1000\<rparr>"

definition boundToken1 :: wearable_token where
  "boundToken1 =
     \<lparr>userId = 1, provider = ''apple_health'', accessToken = ''terra_authenticated'',
      refreshToken = None, externalUserId = Some ''terra-1'', expiresAt = None,
      updatedAt = 2000\<rparr>"

text \<open>The aggregator Credential that a callback without \<open>user_id\<close> creates for user 1.\<close>

definition unboundToken1 :: wearable_token where
  "unboundToken1 =
     \<lparr>userId = 1, provider = ''apple_health'', accessToken = ''terra_authenticated'',
      refreshToken = None, externalUserId = None, expiresAt = None, updatedAt = 2000\<rparr>"

definition emptyWorld :: world where
  "emptyWorld = \<lparr>wearableTokens = [], wearableData = [], providerCalls = [], clock = 2000\<rparr>"

definition unboundCallback :: apple_callback where
  "unboundCallback =
     \<lparr>cbUserId = None, cbStatus = Some ''success'', cbState = Some (Some 1)\<rparr>"

definition unboundWorld :: world where
  "unboundWorld =
     \<lparr>wearableTokens = [unboundToken1], wearableData = [], providerCalls = [],
      clock = 2000\<rparr>"

definition bothWorld :: world where
  "bothWorld =
     \<lparr>wearableTokens = [whoopToken1, boundToken1], wearableData = [], providerCalls = [],
      clock = 5000\<rparr>"

definition staleUnboundWorld :: world where
  "staleUnboundWorld =
     \<lparr>wearableTokens = [whoopToken1, unboundToken1], wearableData = [],
      providerCalls = [], clock = 5000\<rparr>"

text \<open>The environment in which the aggregator's Credential read of the sync rejects.\<close>

definition appleReadFails :: "env \<Rightarrow> env" where
  "appleReadFails env =
     env\<lparr>dbThrows := (\<lambda>c. if c = SyncGetAppleToken then Some ''connection terminated''
                            else dbThrows env c)\<rparr>"

subsection \<open>Invariants of the stored state\<close>

text \<open>No aggregator Credential has a refresh token or an expiry.\<close>

definition aggregatorNeverExpires :: "world \<Rightarrow> bool" where
  "aggregatorNeverExpires w =
     (\<forall>t \<in> set (wearableTokens w).
        provider t = ''apple_health'' \<longrightarrow> refreshToken t = None \<and> expiresAt t = None)"

text \<open>An integer field of a record is never the value 0.\<close>

definition zeroFree :: "wearable_data \<Rightarrow> bool" where
  "zeroFree r = (sleepScore r \<noteq> Some 0 \<and> hrv r \<noteq> Some 0 \<and> heartRate r \<noteq> Some 0)"

definition recordsZeroFree :: "world \<Rightarrow> bool" where
  "recordsZeroFree w = (\<forall>r \<in> set (wearableData w). zeroFree r)"

text \<open>
  The ranges of the record fields as the data model documents them: sleep score 0 to 100,
  HRV and heart rate positive, each of them possibly absent; the strain level has no
  documented range.
\<close>

definition documentedFields :: "wearable_data \<Rightarrow> bool" where
  "documentedFields r =
     ((case sleepScore r of None \<Rightarrow> True | Some s \<Rightarrow> 0 \<le> s \<and> s \<le> 100) \<and>
      (case hrv r of None \<Rightarrow> True | Some h \<Rightarrow> 0 < h) \<and>
      (case heartRate r of None \<Rightarrow> True | Some h \<Rightarrow> 0 < h))"

text \<open>The two provider blocks of the sync handler.\<close>

definition whoopBlock :: "env \<Rightarrow> world \<Rightarrow> int \<Rightarrow> sync_outcome list \<times> world" where
  "whoopBlock env w uid =
     (case getWearableToken w uid ''whoop'' of
        None \<Rightarrow> ([], w)
      | Some whoopToken \<Rightarrow> syncWhoop env w uid whoopToken)"

definition appleBlock :: "env \<Rightarrow> world \<Rightarrow> int \<Rightarrow> sync_outcome list \<times> world" where
  "appleBlock env w uid =
     (case getWearableToken w uid ''apple_health'' of
        None \<Rightarrow> ([], w)
      | Some appleToken \<Rightarrow> syncApple env w uid appleToken)"

subsection \<open>Concrete transformer results\<close>

text \<open>A transformer that reports zeros and an empty duration text.\<close>

definition zeroReadings :: metrics where
  "zeroReadings = \<lparr>deviceType = ''apple_watch'', sleepScore = Some 0,
     sleepDuration = Some [], strainLevel = Some 0, hrv = Some 0, heartRate = None\<rparr>"

definition zeroEnv :: env where
  "zeroEnv = offlineEnv\<lparr>transformAppleHealthData := (\<lambda>s d b. Inr zeroReadings)\<rparr>"

text \<open>
  The tracker answers every fetch and its transformer copies a sleep score of 150 and an
  HRV of -5.
\<close>

definition wildReadings :: metrics where
  "wildReadings = \<lparr>deviceType = ''whoop'', sleepScore = Some 150,
     sleepDuration = None, strainLevel = Some 0, hrv = Some (- 5), heartRate = Some 0\<rparr>"

definition wildEnv :: env where
  "wildEnv = refreshingEnv
     \<lparr>getRecoveryData := (\<lambda>tok n. Inr ''{}''), getSleepData := (\<lambda>tok n. Inr ''{}''),
      getCycleData := (\<lambda>tok n. Inr ''{}''),
      transformWHOOPData := (\<lambda>r s c. Inr wildReadings)\<rparr>"

section \<open>Properties\<close>

subsection \<open>Arithmetic of the draws\<close>

lemma floor_rat_numeral [simp]:
  "\<lfloor>numeral a / numeral b :: rat\<rfloor> = numeral a div numeral b"
  using floor_divide_of_int_eq [of "numeral a" "numeral b", where ?'a = rat] by simp

lemma floor_draw:
  assumes "unitDraw r" and "0 < k"
  shows "0 \<le> \<lfloor>r * of_int k\<rfloor> \<and> \<lfloor>r * of_int k\<rfloor> \<le> k - 1"
proof -
  have "0 \<le> r * of_int k" using assms by (simp add: unitDraw_def)
  moreover have "r * of_int k < of_int k" using assms by (simp add: unitDraw_def)
  ultimately show ?thesis by (simp add: floor_less_iff)
qed

lemma simSleepDuration_ok:
  assumes "unitDraw (hoursR d)" and "unitDraw (minutesR d)"
  shows "sleepDurationOk (simSleepDuration d)"
  unfolding sleepDurationOk_def simSleepDuration_def
  using floor_draw [of "hoursR d" 2] floor_draw [of "minutesR d" 60] assms
  by (intro bexI [of _ "\<lfloor>hoursR d * 2\<rfloor> + 7"] bexI [of _ "\<lfloor>minutesR d * 60\<rfloor>"]) auto

lemma strainOk_tenths:
  assumes lo: "50 \<le> n" and hi: "n \<le> k"
  shows "strainOk (of_int k / 10) (of_int n / 10)"
proof -
  have "(of_int 50 :: rat) \<le> of_int n" using lo by (simp only: of_int_le_iff)
  moreover have "(of_int n :: rat) \<le> of_int k" using hi by (simp only: of_int_le_iff)
  ultimately show ?thesis by (simp add: strainOk_def divide_le_cancel)
qed

lemma toFixed1_strain:
  assumes u: "unitDraw r"
  shows "strainOk 20 (toFixed1 (r * 15 + 5))"
proof -
  let ?n = "\<lfloor>(r * 15 + 5) * 10 + 1 / 2\<rfloor>"
  have lo: "50 \<le> ?n" using u by (simp add: unitDraw_def le_floor_iff)
  have hi: "?n \<le> 200" using u by (simp add: unitDraw_def floor_le_iff)
  show ?thesis using strainOk_tenths [OF lo hi] by (simp add: toFixed1_def)
qed

lemma floor_strain:
  assumes u: "unitDraw r"
  shows "strainOk (199 / 10) (of_int \<lfloor>r * 15\<rfloor> + 5)"
proof -
  define n where "n = \<lfloor>r * 15\<rfloor>"
  have b: "0 \<le> n \<and> n \<le> 14" using u by (simp add: unitDraw_def n_def)
  have "50 \<le> (n + 5) * 10" and "(n + 5) * 10 \<le> 199" using b by auto
  from strainOk_tenths [OF this]
  have "strainOk (199 / 10) (of_int ((n + 5) * 10) / 10)" by simp
  moreover have "(of_int ((n + 5) * 10) / 10 :: rat) = of_int n + 5" by simp
  ultimately show ?thesis by (simp only: n_def)
qed

lemma simulated_ok:
  assumes "unitDraws d"
  shows "withinRanges 20 (simulated dev d)"
  using assms floor_draw [of "sleepScoreR d" 40] floor_draw [of "hrvR d" 50]
    floor_draw [of "heartRateR d" 40]
  by (simp add: withinRanges_def simulated_def unitDraws_def inRange_def
      simSleepDuration_ok toFixed1_strain)

lemma mockData_ok:
  assumes "unitDraws d"
  shows "withinRanges (199 / 10) (mockData d)"
  using assms floor_draw [of "sleepScoreR d" 40] floor_draw [of "hrvR d" 50]
    floor_draw [of "heartRateR d" 40]
  by (simp add: withinRanges_def mockData_def unitDraws_def inRange_def
      simSleepDuration_ok floor_strain)

lemma unitDraws_edgeDraws: "unitDraws edgeDraws"
  by (simp add: unitDraws_def unitDraw_def edgeDraws_def)

subsection \<open>Simulated values\<close>

text \<open>
  C3, as stated, fails: with \<open>Math.random() = 1023 / 1024\<close> the demo object of the tracker
  has the strain level \<open>(19.985...).toFixed(1) = "20.0"\<close>, above the documented 19.9.
\<close>

theorem simulated_strain_counterexample:
  "unitDraws edgeDraws \<and> strainLevel (demoData edgeDraws) = Some 20 \<and>
   \<not> documentedRanges (demoData edgeDraws)"
  by (simp add: unitDraws_def unitDraw_def edgeDraws_def documentedRanges_def
      withinRanges_def demoData_def simulated_def toFixed1_def strainOk_def)

text \<open>
  C3, amended: every simulated object has sleep score 60 to 99, sleep duration 7 to 8
  hours plus 0 to 59 minutes, HRV 25 to 74 and heart rate 60 to 99. Its strain level has
  one decimal and lies between 5.0 and 20.0 at the three sites that print it with
  \<open>toFixed(1)\<close> (demo authorisation of the tracker, mock authorisation of the aggregator,
  demo fallback of the sync), and is a whole number within 5.0 to 19.9 in the
  aggregator's object of the sync.
\<close>

theorem simulated_ranges:
  assumes "unitDraws d"
  shows "withinRanges 20 (simulated ''whoop'' d) \<and>
         withinRanges 20 (simulated ''apple_watch'' d) \<and>
         withinRanges 20 (demoData d) \<and>
         documentedRanges (mockData d) \<and>
         strainLevel (mockData d) = Some (of_int (\<lfloor>strainR d * 15\<rfloor> + 5))"
proof -
  have "strainLevel (mockData d) = Some (of_int (\<lfloor>strainR d * 15\<rfloor> + 5))"
    by (simp add: mockData_def)
  then show ?thesis
    using assms by (simp add: simulated_ok mockData_ok demoData_def documentedRanges_def)
qed

theorem simulated_ranges_witness:
  "unitDraws edgeDraws \<and> withinRanges 20 (demoData edgeDraws) \<and>
   documentedRanges (mockData edgeDraws)"
  using simulated_ranges [of edgeDraws] unitDraws_edgeDraws by simp

subsection \<open>Disconnect\<close>

lemma getWearableToken_delete: "getWearableToken (deleteWearableToken w uid p) uid p = None"
  by (simp add: getWearableToken_def deleteWearableToken_def find_None_iff)

lemma delete_delete:
  "deleteWearableToken (deleteWearableToken w uid p) uid p = deleteWearableToken w uid p"
  by (simp add: deleteWearableToken_def)

lemma delete_absent:
  assumes "getWearableToken w uid p = None"
  shows "deleteWearableToken w uid p = w"
proof -
  have "filter (\<lambda>t. \<not> (userId t = uid \<and> provider t = p)) (wearableTokens w) =
        wearableTokens w"
    using assms by (simp add: getWearableToken_def find_None_iff filter_id_conv)
  then show ?thesis by (simp add: deleteWearableToken_def)
qed

text \<open>
  C9: for a valid user id and a known provider name, with the storage accepting the
  delete, the endpoint reports success and leaves no Credential for the pair; a second
  delete of the same pair reports success again and changes nothing; a delete when no
  Credential exists reports success and changes nothing. An unknown provider name is
  always answered with status 400.
\<close>

theorem disconnect_idempotent:
  "(uid \<noteq> 0 \<and> prov \<in> {''whoop'', ''apple_health''} \<and>
    dbThrows env DisconnectDeleteToken = None \<and> dbThrows env' DisconnectDeleteToken = None \<longrightarrow>
      fst (disconnect env w prov (Some uid)) =
        (200, SuccessBody (prov @ '' disconnected successfully'')) \<and>
      getWearableToken (snd (disconnect env w prov (Some uid))) uid prov = None \<and>
      disconnect env' (snd (disconnect env w prov (Some uid))) prov (Some uid) =
        ((200, SuccessBody (prov @ '' disconnected successfully'')),
         snd (disconnect env w prov (Some uid))) \<and>
      (getWearableToken w uid prov = None \<longrightarrow> snd (disconnect env w prov (Some uid)) = w)) \<and>
   (prov \<notin> {''whoop'', ''apple_health''} \<longrightarrow>
      fst (disconnect env w prov p) = (400, ErrorBody ''Invalid user ID'') \<or>
      fst (disconnect env w prov p) = (400, ErrorBody ''Invalid provider''))"
  by (auto simp: disconnect_def getWearableToken_delete delete_delete delete_absent
      split: option.splits)

theorem disconnect_idempotent_witness:
  "fst (disconnect offlineEnv appleWorld ''apple_health'' (Some 7)) =
     (200, SuccessBody ''apple_health disconnected successfully'') \<and>
   wearableTokens (snd (disconnect offlineEnv appleWorld ''apple_health'' (Some 7))) = [] \<and>
   fst (disconnect offlineEnv
          (snd (disconnect offlineEnv appleWorld ''apple_health'' (Some 7)))
          ''apple_health'' (Some 7)) =
     (200, SuccessBody ''apple_health disconnected successfully'') \<and>
   fst (disconnect offlineEnv appleWorld ''fitbit'' (Some 7)) =
     (400, ErrorBody ''Invalid provider'')"
  using disconnect_idempotent [of 7 "''apple_health''" offlineEnv offlineEnv appleWorld "Some 7"]
    disconnect_idempotent [of 7 "''fitbit''" offlineEnv offlineEnv appleWorld "Some 7"]
  by (simp add: offlineEnv_def appleWorld_def appleToken7_def disconnect_def
      deleteWearableToken_def)

subsection \<open>Webhook\<close>

text \<open>
  C7, as stated, fails: a sleep event without \<open>user\<close> makes the handler throw on
  \<open>user.user_id\<close>, and its \<open>catch\<close> answers with status 500.
\<close>

theorem terraWebhook_counterexample:
  "terraWebhook offlineEnv appleWorld (sleepEvent None) =
     ((500, ErrorBody ''Failed to process webhook''), appleWorld)"
  by (simp add: terraWebhook_def sleepEvent_def)

text \<open>
  C7, amended: the endpoint answers with status 200 unless the handler raises, and with
  status 500 when it does, in which case nothing is persisted. The handler raises on an
  event of category body, daily or sleep that has no \<open>user\<close>, or whose Credential lookup
  rejects, or for which a Credential is found and the transformer or the insert throws.
  Events of other categories and events for unknown users are answered with 200.
\<close>

theorem terraWebhook_status:
  "fst (fst (terraWebhook env w ev)) = (if webhookRaises env w ev then 500 else 200) \<and>
   (webhookRaises env w ev \<longrightarrow> snd (terraWebhook env w ev) = w)"
  by (auto simp: terraWebhook_def webhookRaises_def split: option.splits sum.splits)

theorem terraWebhook_status_witness:
  "webhookRaises offlineEnv appleWorld (sleepEvent None) \<and>
   fst (fst (terraWebhook offlineEnv appleWorld (sleepEvent None))) = 500 \<and>
   snd (terraWebhook offlineEnv appleWorld (sleepEvent None)) = appleWorld \<and>
   \<not> webhookRaises offlineEnv appleWorld (sleepEvent (Some \<lparr>user_id = 8\<rparr>)) \<and>
   fst (fst (terraWebhook offlineEnv appleWorld (sleepEvent (Some \<lparr>user_id = 8\<rparr>)))) = 200"
  using terraWebhook_status [of offlineEnv appleWorld "sleepEvent None"]
    terraWebhook_status [of offlineEnv appleWorld "sleepEvent (Some \<lparr>user_id = 8\<rparr>)"]
  by (simp add: webhookRaises_def sleepEvent_def offlineEnv_def appleWorld_def
      appleToken7_def getWearableToken_def)

text \<open>
  C6 against the code: the only Credential stored belongs to user 7 and has the
  external identifier \<open>terra-abc\<close>. A sleep event that carries the identifier 7 matches
  no \<open>externalUserId\<close>, yet the route, which passes the identifier to
  \<open>getWearableToken\<close> as the internal \<open>userId\<close>, finds the Credential of user 7 and
  persists a record for that user.
\<close>

theorem terraWebhook_resolves_by_userId:
  "findByExternalUserId appleWorld (toString 7) = None \<and>
   map externalUserId (wearableTokens appleWorld) = [Some ''terra-abc''] \<and>
   terraWebhook offlineEnv appleWorld (sleepEvent (Some \<lparr>user_id = 7\<rparr>)) =
     ((200, MessageBody ''Webhook processed successfully''),
      appleWorld\<lparr>wearableData :=
        [\<lparr>deviceType = ''apple_watch'', sleepScore = Some 82, sleepDuration = Some ''7h 42m'',
          strainLevel = None, hrv = None, heartRate = None, dataUserId = 7,
          recordedAt = 5000\<rparr>]\<rparr>)"
  by (simp add: findByExternalUserId_def terraWebhook_def sleepEvent_def offlineEnv_def
      appleWorld_def appleToken7_def getWearableToken_def createWearableData_def nullable_def
      sleepOnly_def orNull_def orNullText_def toString_def)

subsection \<open>Storage lookups across the stages of a sync\<close>

lemma find_map_preserve:
  assumes "\<And>x. P (g x) = P x"
  shows "find P (map g xs) = map_option g (find P xs)"
  using assms by (induction xs) simp_all

lemma getWearableToken_update:
  "getWearableToken (updateWearableToken w uid p u) uid' p' =
     map_option (\<lambda>t. if userId t = uid \<and> provider t = p then applyUpdates u (clock w) t else t)
       (getWearableToken w uid' p')"
  unfolding getWearableToken_def updateWearableToken_def
  by (simp add: find_map_preserve applyUpdates_def)

lemma getWearableToken_update_other:
  "p \<noteq> p' \<Longrightarrow> getWearableToken (updateWearableToken w uid p u) uid' p' = getWearableToken w uid' p'"
  unfolding getWearableToken_update
  by (cases "getWearableToken w uid' p'") (auto simp: getWearableToken_def dest: find_Some_iff [THEN iffD1])

lemma getWearableToken_found:
  "getWearableToken w uid p = Some t \<Longrightarrow> userId t = uid \<and> provider t = p"
  by (auto simp: getWearableToken_def find_Some_iff)

lemma getWearableToken_createWearableData [simp]:
  "getWearableToken (createWearableData w uid m) uid' p = getWearableToken w uid' p"
  by (simp add: getWearableToken_def createWearableData_def)

lemma getWearableToken_log [simp]:
  "getWearableToken (w\<lparr>providerCalls := cs\<rparr>) uid p = getWearableToken w uid p"
  "getWearableToken (w\<lparr>clock := c\<rparr>) uid p = getWearableToken w uid p"
  by (simp_all add: getWearableToken_def)

lemma syncWhoopRefresh_other:
  "p \<noteq> ''whoop'' \<Longrightarrow>
   getWearableToken (snd (syncWhoopRefresh env w uid tok)) uid' p = getWearableToken w uid' p"
  by (auto simp: syncWhoopRefresh_def callRefresh_def getWearableToken_update_other Let_def
      split: sum.splits option.splits)

lemma syncWhoopReal_tokens [simp]:
  "getWearableToken (snd (syncWhoopReal env w uid a)) uid' p = getWearableToken w uid' p"
  by (auto simp: syncWhoopReal_def Let_def split: option.splits)

lemma syncWhoopDemo_other:
  "p \<noteq> ''whoop'' \<Longrightarrow>
   getWearableToken (snd (syncWhoopDemo env w uid)) uid' p = getWearableToken w uid' p"
  by (auto simp: syncWhoopDemo_def getWearableToken_update_other Let_def split: option.splits)

lemma syncWhoop_other:
  "p \<noteq> ''whoop'' \<Longrightarrow>
   getWearableToken (snd (syncWhoop env w uid tok)) uid' p = getWearableToken w uid' p"
proof -
  assume p: "p \<noteq> ''whoop''"
  obtain r w1 where r: "syncWhoopRefresh env w uid tok = (r, w1)" by force
  have w1: "getWearableToken w1 uid' p = getWearableToken w uid' p"
    using syncWhoopRefresh_other [OF p, of env w uid tok uid'] r by simp
  show ?thesis
  proof (cases r)
    case (Inl e)
    then show ?thesis using r w1 by (simp add: syncWhoop_def)
  next
    case (Inr a)
    obtain m w2 where m: "syncWhoopReal env w1 uid a = (m, w2)" by force
    have w2: "getWearableToken w2 uid' p = getWearableToken w uid' p"
      using syncWhoopReal_tokens [of env w1 uid a uid' p] m w1 by simp
    show ?thesis
      using r Inr m w2 syncWhoopDemo_other [OF p, of env w2 uid uid']
      by (cases m) (simp_all add: syncWhoop_def)
  qed
qed

lemma syncWhoopDemo_providers: "map outcomeProvider (fst (syncWhoopDemo env w uid)) = [''whoop'']"
  by (simp add: syncWhoopDemo_def Let_def failed_def succeeded_def split: option.splits)

lemma syncWhoop_providers: "map outcomeProvider (fst (syncWhoop env w uid tok)) = [''whoop'']"
  by (simp add: syncWhoop_def failed_def succeeded_def syncWhoopDemo_providers
      split: prod.splits sum.splits option.splits)

lemma syncApple_providers:
  "map outcomeProvider (fst (syncApple env w uid a)) =
     (if truthy (externalUserId a) then [''apple_health''] else [])"
  by (simp add: syncApple_def Let_def failed_def succeeded_def split: option.splits)

lemma wearableData_createWearableData:
  "wearableData (createWearableData w uid m) = wearableData w @ [rowOf uid (clock w) m]"
  by (simp add: createWearableData_def rowOf_def)

lemma wearableData_updateWearableToken [simp]:
  "wearableData (updateWearableToken w uid p u) = wearableData w"
  by (simp add: updateWearableToken_def)

lemma syncWhoopRefresh_inUse:
  assumes "tokenInUse env w tok = Some a"
  shows "\<exists>w1. syncWhoopRefresh env w uid tok = (Inr a, w1) \<and> wearableData w1 = wearableData w"
  using assms
  by (auto simp: tokenInUse_def syncWhoopRefresh_def callRefresh_def Let_def
      split: if_splits sum.splits option.splits)

lemma syncWhoopReal_fails:
  assumes "fetchMetrics env a = None"
  shows "syncWhoopReal env w uid a =
    (None, w\<lparr>providerCalls := providerCalls w @
                  [GetRecoveryData a 1, GetSleepData a 1, GetCycleData a 1]\<rparr>)"
  using assms by (simp add: syncWhoopReal_def)

lemma syncWhoopDemo_succeeds:
  assumes "dbThrows env SyncCreateDemo = None" and "dbThrows env SyncTouchToken = None"
  shows "syncWhoopDemo env w uid =
    ([succeeded ''whoop'' (demoData (mathRandom env SyncDemoDraws))],
     updateWearableToken (createWearableData w uid (demoData (mathRandom env SyncDemoDraws)))
       uid ''whoop'' noUpdates)"
  using assms by (simp add: syncWhoopDemo_def Let_def)

lemma syncApple_outcomes:
  "fst (syncApple env w uid a) = [] \<or>
   fst (syncApple env w uid a) =
     [succeeded ''apple_health'' (mockData (mathRandom env SyncMockDraws))] \<or>
   (\<exists>e. fst (syncApple env w uid a) = [failed ''apple_health'' e])"
  by (auto simp: syncApple_def Let_def split: option.splits)

lemma syncApple_keeps_rows:
  "set (wearableData w) \<subseteq> set (wearableData (snd (syncApple env w uid a)))"
  by (auto simp: syncApple_def Let_def wearableData_createWearableData split: option.splits)

lemmas inputs_defs = offlineEnv_def refreshingEnv_def refreshedPair_def whoopToken1_def
  boundToken1_def unboundToken1_def emptyWorld_def unboundCallback_def unboundWorld_def
  bothWorld_def staleUnboundWorld_def edgeDraws_def sleepOnly_def

lemmas sync_defs = sync_def syncWhoop_def syncWhoopRefresh_def callRefresh_def
  syncWhoopReal_def fetchMetrics_def syncWhoopDemo_def syncApple_def failed_def succeeded_def
  getWearableToken_def updateWearableToken_def createWearableData_def applyUpdates_def
  noUpdates_def isStale_def truthy_def

lemma credential_touch:
  "credential (if c then applyUpdates noUpdates t x else x) = credential x"
  by (simp add: credential_def applyUpdates_def noUpdates_def)

lemma syncWhoopDemo_credential:
  "map_option credential (getWearableToken (snd (syncWhoopDemo env w uid)) uid' p) =
   map_option credential (getWearableToken w uid' p)"
  by (simp add: syncWhoopDemo_def Let_def getWearableToken_update option.map_comp comp_def
      credential_touch split: option.splits)

lemma syncApple_tokens [simp]:
  "getWearableToken (snd (syncApple env w uid a)) uid' p = getWearableToken w uid' p"
  by (simp add: syncApple_def Let_def split: option.splits)

lemma syncWhoop_credential:
  assumes "syncWhoopRefresh env w uid tok = (Inr a, w1)"
  shows "map_option credential (getWearableToken (snd (syncWhoop env w uid tok)) uid' p) =
         map_option credential (getWearableToken w1 uid' p)"
proof -
  obtain m w2 where m: "syncWhoopReal env w1 uid a = (m, w2)" by force
  have w2: "getWearableToken w2 uid' p = getWearableToken w1 uid' p"
    using syncWhoopReal_tokens [of env w1 uid a uid' p] m by simp
  show ?thesis
    using assms m w2 syncWhoopDemo_credential [of env w2 uid uid' p]
    by (cases m) (simp_all add: syncWhoop_def)
qed

lemma sync_after_whoop:
  assumes "uid \<noteq> 0" and "dbThrows env SyncGetWhoopToken = None"
    and "getWearableToken w uid ''whoop'' = Some tok"
  shows "getWearableToken (snd (sync env w (Some uid))) uid' p =
         getWearableToken (snd (syncWhoop env w uid tok)) uid' p"
proof -
  obtain rs w1 where a: "syncWhoop env w uid tok = (rs, w1)" by force
  show ?thesis
  proof (cases "dbThrows env SyncGetAppleToken")
    case (Some e)
    then show ?thesis using assms a by (simp add: sync_def)
  next
    case None
    note quiet = this
    show ?thesis
    proof (cases "getWearableToken w1 uid ''apple_health''")
      case None
      then show ?thesis using assms a quiet by (simp add: sync_def)
    next
      case (Some t)
      obtain rs2 w2 where b: "syncApple env w1 uid t = (rs2, w2)" by force
      have "getWearableToken w2 uid' p = getWearableToken w1 uid' p"
        using syncApple_tokens [of env w1 uid t uid' p] b by simp
      then show ?thesis using assms a quiet Some b by (simp add: sync_def)
    qed
  qed
qed

subsection \<open>One outcome per provider\<close>

text \<open>
  C1, as stated, fails: the callback of the aggregator without \<open>user_id\<close> creates a
  Credential for user 1, and the sync of user 1 then returns an empty result list.
\<close>

theorem sync_unbound_counterexample:
  "snd (appleCallback offlineEnv emptyWorld unboundCallback) = unboundWorld \<and>
   getWearableToken unboundWorld 1 ''apple_health'' = Some unboundToken1 \<and>
   sync offlineEnv unboundWorld (Some 1) = ((200, SyncBody []), unboundWorld)"
  by (simp add: inputs_defs sync_defs appleCallback_def createWearableToken_def)

text \<open>
  C1, amended: for every valid user id whose two Credential reads succeed, the sync
  answers with status 200 and a result list that holds exactly one outcome for the
  tracker when the tracker has a Credential, followed by exactly one for the aggregator
  when the aggregator has a Credential with a non-empty \<open>externalUserId\<close>, and nothing
  else. This holds whatever the refresh, the fetches, the transformer and the storage
  writes do, so that a failure of one provider never removes the outcome of the other.
\<close>

theorem sync_one_outcome_per_provider:
  assumes "uid \<noteq> 0" and "dbThrows env SyncGetWhoopToken = None"
    and "dbThrows env SyncGetAppleToken = None"
  shows "\<exists>results w'. sync env w (Some uid) = ((200, SyncBody results), w') \<and>
           map outcomeProvider results = connectedProviders w uid"
proof -
  obtain results1 w1 where b1:
    "(case getWearableToken w uid ''whoop'' of None \<Rightarrow> ([], w)
      | Some whoopToken \<Rightarrow> syncWhoop env w uid whoopToken) = (results1, w1)" by force
  obtain results2 w2 where b2:
    "(case getWearableToken w1 uid ''apple_health'' of None \<Rightarrow> ([], w1)
      | Some appleToken \<Rightarrow> syncApple env w1 uid appleToken) = (results2, w2)" by force
  have s: "sync env w (Some uid) = ((200, SyncBody (results1 @ results2)), w2)"
    using assms b1 b2 by (simp add: sync_def)
  have p1: "map outcomeProvider results1 =
      (case getWearableToken w uid ''whoop'' of None \<Rightarrow> [] | Some t \<Rightarrow> [''whoop''])"
  proof (cases "getWearableToken w uid ''whoop''")
    case None
    then show ?thesis using b1 by auto
  next
    case (Some t)
    then have "syncWhoop env w uid t = (results1, w1)" using b1 by simp
    then show ?thesis using Some syncWhoop_providers [of env w uid t] by simp
  qed
  have a: "getWearableToken w1 uid ''apple_health'' = getWearableToken w uid ''apple_health''"
  proof (cases "getWearableToken w uid ''whoop''")
    case None
    then show ?thesis using b1 by auto
  next
    case (Some t)
    then have "syncWhoop env w uid t = (results1, w1)" using b1 by simp
    then show ?thesis using syncWhoop_other [of "''apple_health''" env w uid t uid] by simp
  qed
  have p2: "map outcomeProvider results2 =
      (case getWearableToken w uid ''apple_health'' of None \<Rightarrow> []
       | Some a \<Rightarrow> if truthy (externalUserId a) then [''apple_health''] else [])"
  proof (cases "getWearableToken w uid ''apple_health''")
    case None
    then show ?thesis using b2 a by auto
  next
    case (Some t)
    then have "syncApple env w1 uid t = (results2, w2)" using b2 a by simp
    then show ?thesis using Some syncApple_providers [of env w1 uid t] by simp
  qed
  show ?thesis using s p1 p2 by (simp add: connectedProviders_def)
qed

theorem sync_one_outcome_per_provider_witness:
  "connectedProviders bothWorld 1 = [''whoop'', ''apple_health''] \<and>
   (\<exists>results w'. sync offlineEnv bothWorld (Some 1) = ((200, SyncBody results), w') \<and>
      map outcomeProvider results = [''whoop'', ''apple_health''])"
proof -
  have c: "connectedProviders bothWorld 1 = [''whoop'', ''apple_health'']"
    by (simp add: connectedProviders_def inputs_defs getWearableToken_def truthy_def)
  show ?thesis
    using sync_one_outcome_per_provider [of 1 offlineEnv bothWorld] c
    by (simp add: offlineEnv_def)
qed

subsection \<open>Fallback to simulated data\<close>

text \<open>
  C2, as stated, fails: the fetch fails, the fallback succeeds, and the simulated record
  it persists has the strain level 20.0, outside the documented range.
\<close>

theorem sync_fallback_counterexample:
  "fetchMetrics refreshingEnv ''a2'' = None \<and>
   fst (sync refreshingEnv bothWorld (Some 1)) =
     (200, SyncBody [succeeded ''whoop'' (demoData edgeDraws),
                     succeeded ''apple_health'' (mockData edgeDraws)]) \<and>
   map strainLevel (wearableData (snd (sync refreshingEnv bothWorld (Some 1)))) =
     [Some 20, Some 19] \<and>
   \<not> documentedRanges (demoData edgeDraws)"
  by (simp add: inputs_defs sync_defs documentedRanges_def withinRanges_def demoData_def
      simulated_def mockData_def toFixed1_def strainOk_def)

text \<open>
  C2, amended: take a valid user id whose tracker Credential read succeeds and whose
  tracker Credential exists, with the access token in use available (the Credential is
  not stale, or the refresh and the update after it succeed), the metrics fetch failing
  (a fetch or the transformer throws), the two storage writes of the fallback succeeding
  and every \<open>Math.random()\<close> in \<open>[0, 1)\<close>. Then the sync persists a simulated record
  for the user, with sleep score 60 to 99, sleep duration 7 to 8 hours plus 0 to 59
  minutes, HRV 25 to 74, heart rate 60 to 99 and a strain level with one decimal between
  5.0 and 20.0. When the aggregator's Credential read succeeds, the sync answers with
  status 200 and lists the simulated record first with status success, followed by at
  most one outcome of the aggregator, which involves no fetch: its simulated object with
  status success, or an error when its insert throws. When the aggregator's Credential
  read throws, the sync answers with status 500 and the simulated record stays
  persisted.
\<close>

theorem sync_fetch_failure_falls_back:
  assumes "uid \<noteq> 0" and "dbThrows env SyncGetWhoopToken = None"
    and tok: "getWearableToken w uid ''whoop'' = Some tok"
    and inUse: "tokenInUse env w tok = Some a"
    and fetch: "fetchMetrics env a = None"
    and db: "dbThrows env SyncCreateDemo = None" "dbThrows env SyncTouchToken = None"
    and draws: "unitDraws (mathRandom env SyncDemoDraws)"
  shows "\<exists>t rest.
           rowOf uid t (demoData (mathRandom env SyncDemoDraws)) \<in>
             set (wearableData (snd (sync env w (Some uid)))) \<and>
           withinRanges 20 (demoData (mathRandom env SyncDemoDraws)) \<and>
           (rest = [] \<or>
            rest = [succeeded ''apple_health'' (mockData (mathRandom env SyncMockDraws))] \<or>
            (\<exists>e. rest = [failed ''apple_health'' e])) \<and>
           fst (sync env w (Some uid)) =
             (case dbThrows env SyncGetAppleToken of
                Some e \<Rightarrow> (500, ErrorBody ''Failed to sync wearable data'')
              | None \<Rightarrow>
                  (200, SyncBody
                     (succeeded ''whoop'' (demoData (mathRandom env SyncDemoDraws)) # rest)))"
proof -
  let ?demo = "demoData (mathRandom env SyncDemoDraws)"
  obtain w1 where r: "syncWhoopRefresh env w uid tok = (Inr a, w1)"
    using syncWhoopRefresh_inUse [OF inUse] by blast
  define w2 where "w2 = w1\<lparr>providerCalls := providerCalls w1 @
                  [GetRecoveryData a 1, GetSleepData a 1, GetCycleData a 1]\<rparr>"
  define w3 where
    "w3 = updateWearableToken (createWearableData w2 uid ?demo) uid ''whoop'' noUpdates"
  have whoop: "syncWhoop env w uid tok = ([succeeded ''whoop'' ?demo], w3)"
    using r syncWhoopReal_fails [OF fetch, of w1 uid] syncWhoopDemo_succeeds [OF db, of w2 uid]
    by (simp add: syncWhoop_def w2_def w3_def)
  have row: "rowOf uid (clock w2) ?demo \<in> set (wearableData w3)"
    by (simp add: w3_def wearableData_createWearableData)
  have ranges: "withinRanges 20 ?demo" using draws by (simp add: demoData_def simulated_ok)
  obtain results2 w4 where b2:
    "(case getWearableToken w3 uid ''apple_health'' of None \<Rightarrow> ([], w3)
      | Some appleToken \<Rightarrow> syncApple env w3 uid appleToken) = (results2, w4)" by force
  have keep: "set (wearableData w3) \<subseteq> set (wearableData w4)"
    and shape: "results2 = [] \<or>
        results2 = [succeeded ''apple_health'' (mockData (mathRandom env SyncMockDraws))] \<or>
        (\<exists>e. results2 = [failed ''apple_health'' e])"
  proof -
    show "set (wearableData w3) \<subseteq> set (wearableData w4)"
    proof (cases "getWearableToken w3 uid ''apple_health''")
      case None
      then show ?thesis using b2 by simp
    next
      case (Some t)
      then have "syncApple env w3 uid t = (results2, w4)" using b2 by simp
      then show ?thesis using syncApple_keeps_rows [of w3 env uid t] by simp
    qed
    show "results2 = [] \<or>
        results2 = [succeeded ''apple_health'' (mockData (mathRandom env SyncMockDraws))] \<or>
        (\<exists>e. results2 = [failed ''apple_health'' e])"
    proof (cases "getWearableToken w3 uid ''apple_health''")
      case None
      then show ?thesis using b2 by simp
    next
      case (Some t)
      then have "syncApple env w3 uid t = (results2, w4)" using b2 by simp
      then show ?thesis using syncApple_outcomes [of env w3 uid t] by simp
    qed
  qed
  show ?thesis
  proof (cases "dbThrows env SyncGetAppleToken")
    case (Some e)
    then have "sync env w (Some uid) = ((500, ErrorBody ''Failed to sync wearable data''), w3)"
      using assms(1,2) tok whoop by (simp add: sync_def)
    then show ?thesis using Some row ranges by auto
  next
    case None
    then have "sync env w (Some uid) =
        ((200, SyncBody (succeeded ''whoop'' ?demo # results2)), w4)"
      using assms(1,2) tok whoop b2 by (simp add: sync_def)
    then show ?thesis using None row keep ranges shape by auto
  qed
qed

theorem sync_fetch_failure_falls_back_witness:
  "(\<exists>t. rowOf 1 t (demoData edgeDraws) \<in>
          set (wearableData (snd (sync refreshingEnv bothWorld (Some 1))))) \<and>
   withinRanges 20 (demoData edgeDraws) \<and>
   (\<exists>rest. fst (sync refreshingEnv bothWorld (Some 1)) =
            (200, SyncBody (succeeded ''whoop'' (demoData edgeDraws) # rest))) \<and>
   (\<exists>t. rowOf 1 t (demoData edgeDraws) \<in>
          set (wearableData (snd (sync (appleReadFails refreshingEnv) bothWorld (Some 1))))) \<and>
   fst (sync (appleReadFails refreshingEnv) bothWorld (Some 1)) =
     (500, ErrorBody ''Failed to sync wearable data'')"
proof -
  have a: "\<exists>t rest.
      rowOf 1 t (demoData edgeDraws) \<in>
        set (wearableData (snd (sync refreshingEnv bothWorld (Some 1)))) \<and>
      withinRanges 20 (demoData edgeDraws) \<and>
      fst (sync refreshingEnv bothWorld (Some 1)) =
        (200, SyncBody (succeeded ''whoop'' (demoData edgeDraws) # rest))"
    using sync_fetch_failure_falls_back [of 1 refreshingEnv bothWorld whoopToken1 "''a2''"]
    by (simp add: inputs_defs getWearableToken_def tokenInUse_def isStale_def fetchMetrics_def
        unitDraws_def unitDraw_def) blast
  have b: "\<exists>t.
      rowOf 1 t (demoData edgeDraws) \<in>
        set (wearableData (snd (sync (appleReadFails refreshingEnv) bothWorld (Some 1)))) \<and>
      fst (sync (appleReadFails refreshingEnv) bothWorld (Some 1)) =
        (500, ErrorBody ''Failed to sync wearable data'')"
    using sync_fetch_failure_falls_back
      [of 1 "appleReadFails refreshingEnv" bothWorld whoopToken1 "''a2''"]
    by (simp add: inputs_defs appleReadFails_def getWearableToken_def tokenInUse_def isStale_def
        fetchMetrics_def unitDraws_def unitDraw_def)
  show ?thesis using a b by blast
qed

subsection \<open>Token refresh\<close>

text \<open>
  C4: when the tracker's Credential is stale (\<open>expiresAt\<close> set and before the current
  time) and has a refresh token, and the refresh and the update of the stored Credential
  succeed, then after the sync the stored Credential has \<open>expiresAt\<close> at the time after
  the refresh plus the relative expiry, which is strictly later than the old value, the
  new access and refresh tokens, and the \<open>externalUserId\<close> it had.
\<close>

theorem sync_refresh_moves_expiry_forward:
  assumes "uid \<noteq> 0" and "dbThrows env SyncGetWhoopToken = None"
    and tok: "getWearableToken w uid ''whoop'' = Some tok"
    and old: "expiresAt tok = Some old" and stale: "old < clock w"
    and rt: "refreshToken tok = Some rt"
    and ok: "refreshAccessToken env (Some rt) = Inr r"
    and upd: "dbThrows env SyncUpdateRefreshed = None"
  shows "\<exists>tok'. getWearableToken (snd (sync env w (Some uid))) uid ''whoop'' = Some tok' \<and>
           expiresAt tok' =
             Some (clock w + int (refreshLatency env) + int (expires_in r) * 1000) \<and>
           old < clock w + int (refreshLatency env) + int (expires_in r) * 1000 \<and>
           accessToken tok' = access_token r \<and>
           refreshToken tok' = Some (refresh_token r) \<and>
           externalUserId tok' = externalUserId tok"
proof -
  define w1 where "w1 = w\<lparr>providerCalls := providerCalls w @ [RefreshAccessToken (Some rt)],
                          clock := clock w + int (refreshLatency env)\<rparr>"
  define u where "u = \<lparr>setAccessToken = Some (access_token r),
                       setRefreshToken = Some (Some (refresh_token r)),
                       setExternalUserId = None,
                       setExpiresAt = Some (Some (clock w1 + int (expires_in r) * 1000))\<rparr>"
  define w2 where "w2 = updateWearableToken w1 uid ''whoop'' u"
  have refresh: "syncWhoopRefresh env w uid tok = (Inr (access_token r), w2)"
    using old stale rt ok upd
    by (simp add: syncWhoopRefresh_def callRefresh_def isStale_def w1_def u_def w2_def Let_def)
  have "getWearableToken w1 uid ''whoop'' = Some tok" using tok by (simp add: w1_def)
  then have stored: "getWearableToken w2 uid ''whoop'' = Some (applyUpdates u (clock w1) tok)"
    using getWearableToken_found [OF tok] by (simp add: w2_def getWearableToken_update)
  have "map_option credential (getWearableToken (snd (sync env w (Some uid))) uid ''whoop'') =
        Some (credential (applyUpdates u (clock w1) tok))"
    using sync_after_whoop [OF assms(1,2) tok] syncWhoop_credential [OF refresh] stored by simp
  then obtain tok' where
    tok': "getWearableToken (snd (sync env w (Some uid))) uid ''whoop'' = Some tok'"
    and c: "credential tok' = credential (applyUpdates u (clock w1) tok)" by auto
  have "expiresAt tok' = Some (clock w + int (refreshLatency env) + int (expires_in r) * 1000)"
    and "accessToken tok' = access_token r"
    and "refreshToken tok' = Some (refresh_token r)"
    and "externalUserId tok' = externalUserId tok"
    using c by (simp_all add: credential_def applyUpdates_def u_def w1_def)
  moreover have "old < clock w + int (refreshLatency env) + int (expires_in r) * 1000"
    using stale by simp
  ultimately show ?thesis using tok' by simp
qed

theorem sync_refresh_moves_expiry_forward_witness:
  "\<exists>tok'. getWearableToken (snd (sync refreshingEnv bothWorld (Some 1))) 1 ''whoop'' = Some tok' \<and>
     expiresAt tok' = Some 3605250 \<and> accessToken tok' = ''a2'' \<and>
     refreshToken tok' = Some ''r2'' \<and> externalUserId tok' = Some ''12345''"
  using sync_refresh_moves_expiry_forward
    [of 1 refreshingEnv bothWorld whoopToken1 4000 "''r1''" refreshedPair]
  by (simp add: inputs_defs getWearableToken_def)

subsection \<open>Rejected refresh\<close>

text \<open>
  C5, as stated, fails: user 1 has both Credentials, the aggregator's without
  \<open>externalUserId\<close>. The status endpoint reports both as connected, the tracker rejects
  the refresh, and the result list holds the tracker's error only.
\<close>

theorem sync_refresh_rejected_counterexample:
  "getWearableToken staleUnboundWorld 1 ''apple_health'' = Some unboundToken1 \<and>
   wearableStatus offlineEnv staleUnboundWorld (Some 1) =
     (200, StatusBody
        \<lparr>whoop = \<lparr>connected_p = True, lastSync = Some 1000, needsReauth = True\<rparr>,
         apple_health = \<lparr>connected_p = True, lastSync = Some 2000, needsReauth = False\<rparr>\<rparr>) \<and>
   fst (sync offlineEnv staleUnboundWorld (Some 1)) =
     (200, SyncBody [failed ''whoop'' ''invalid_grant''])"
  by (simp add: inputs_defs sync_defs wearableStatus_def)

text \<open>
  C5, amended: take a valid user id whose tracker Credential read succeeds and whose
  tracker Credential is stale, with the tracker rejecting the refresh token. Then no
  record is persisted for the tracker and the only call sent to the tracker is the one
  refresh. When the aggregator's Credential read succeeds, the sync answers with status
  200 and the tracker's outcome has status error and the rejection message; the
  aggregator yields status success, with its record persisted, when its Credential has a
  non-empty \<open>externalUserId\<close> and its insert succeeds, status error when the insert
  throws, and no outcome when it has no Credential or a Credential without
  \<open>externalUserId\<close>. When the aggregator's Credential read throws, the sync answers with
  status 500 and returns no outcome.
\<close>

theorem sync_refresh_rejected:
  assumes "uid \<noteq> 0" and "dbThrows env SyncGetWhoopToken = None"
    and "getWearableToken w uid ''whoop'' = Some tok"
    and "isStale (clock w) tok"
    and "refreshAccessToken env (refreshToken tok) = Inl e"
  shows "sync env w (Some uid) =
    (let w1 = w\<lparr>providerCalls := providerCalls w @ [RefreshAccessToken (refreshToken tok)],
                 clock := clock w + int (refreshLatency env)\<rparr>;
         mock = mockData (mathRandom env SyncMockDraws)
     in case dbThrows env SyncGetAppleToken of
          Some e' \<Rightarrow> ((500, ErrorBody ''Failed to sync wearable data''), w1)
        | None \<Rightarrow>
            (case getWearableToken w uid ''apple_health'' of
               None \<Rightarrow> ((200, SyncBody [failed ''whoop'' e]), w1)
             | Some appleToken \<Rightarrow>
                 if truthy (externalUserId appleToken) then
                   (case dbThrows env SyncCreateMock of
                      None \<Rightarrow>
                        ((200, SyncBody [failed ''whoop'' e, succeeded ''apple_health'' mock]),
                         createWearableData w1 uid mock)
                    | Some e' \<Rightarrow>
                        ((200, SyncBody [failed ''whoop'' e, failed ''apple_health'' e']), w1))
                 else ((200, SyncBody [failed ''whoop'' e]), w1)))"
proof -
  have "syncWhoop env w uid tok =
      ([failed ''whoop'' e],
       w\<lparr>providerCalls := providerCalls w @ [RefreshAccessToken (refreshToken tok)],
         clock := clock w + int (refreshLatency env)\<rparr>)"
    using assms by (simp add: syncWhoop_def syncWhoopRefresh_def callRefresh_def)
  then show ?thesis
    using assms
    by (simp add: sync_def syncApple_def Let_def split: option.splits)
qed

theorem sync_refresh_rejected_witness:
  "sync offlineEnv bothWorld (Some 1) =
     ((200, SyncBody [failed ''whoop'' ''invalid_grant'',
                      succeeded ''apple_health'' (mockData edgeDraws)]),
      createWearableData
        (bothWorld\<lparr>providerCalls := [RefreshAccessToken (Some ''r1'')], clock := 5250\<rparr>)
        1 (mockData edgeDraws)) \<and>
   sync (appleReadFails offlineEnv) bothWorld (Some 1) =
     ((500, ErrorBody ''Failed to sync wearable data''),
      bothWorld\<lparr>providerCalls := [RefreshAccessToken (Some ''r1'')], clock := 5250\<rparr>)"
  using sync_refresh_rejected [of 1 offlineEnv bothWorld whoopToken1 "''invalid_grant''"]
    sync_refresh_rejected
      [of 1 "appleReadFails offlineEnv" bothWorld whoopToken1 "''invalid_grant''"]
  by (simp add: inputs_defs appleReadFails_def getWearableToken_def isStale_def truthy_def
      Let_def)

subsection \<open>Preservation of the invariants\<close>

lemma ane_frame [simp]:
  "aggregatorNeverExpires (createWearableData w uid m) = aggregatorNeverExpires w"
  "aggregatorNeverExpires (w\<lparr>providerCalls := cs\<rparr>) = aggregatorNeverExpires w"
  "aggregatorNeverExpires (w\<lparr>clock := c\<rparr>) = aggregatorNeverExpires w"
  by (simp_all add: aggregatorNeverExpires_def createWearableData_def)

lemma ane_create [simp]:
  "aggregatorNeverExpires (createWearableToken w ins) =
     (aggregatorNeverExpires w \<and>
      (provider ins = ''apple_health'' \<longrightarrow> refreshToken ins = None \<and> expiresAt ins = None))"
  by (auto simp: aggregatorNeverExpires_def createWearableToken_def)

lemma ane_update:
  assumes "aggregatorNeverExpires w"
    and "p = ''apple_health'' \<longrightarrow> setRefreshToken u = None \<and> setExpiresAt u = None"
  shows "aggregatorNeverExpires (updateWearableToken w uid p u)"
  using assms
  by (auto simp: aggregatorNeverExpires_def updateWearableToken_def applyUpdates_def)

lemma ane_delete:
  "aggregatorNeverExpires w \<Longrightarrow> aggregatorNeverExpires (deleteWearableToken w uid p)"
  by (simp add: aggregatorNeverExpires_def deleteWearableToken_def)

lemma ane_whoopDemoAuth:
  "aggregatorNeverExpires w \<Longrightarrow> aggregatorNeverExpires (snd (whoopDemoAuth env w p))"
  by (auto simp: whoopDemoAuth_def ane_update split: option.splits)

lemma ane_handleAuthentication:
  "aggregatorNeverExpires w \<Longrightarrow>
   aggregatorNeverExpires (snd (handleAuthentication env w a r n x))"
  by (auto simp: handleAuthentication_def Let_def ane_update split: option.splits)

lemma ane_appleMockAuth:
  "aggregatorNeverExpires w \<Longrightarrow> aggregatorNeverExpires (snd (appleMockAuth env w p))"
  by (auto simp: appleMockAuth_def Let_def ane_update split: option.splits)

lemma ane_appleCallback:
  "aggregatorNeverExpires w \<Longrightarrow> aggregatorNeverExpires (snd (appleCallback env w b))"
  by (auto simp: appleCallback_def ane_update split: option.splits)

lemma ane_terraWebhook:
  "aggregatorNeverExpires w \<Longrightarrow> aggregatorNeverExpires (snd (terraWebhook env w ev))"
  by (auto simp: terraWebhook_def split: option.splits sum.splits)

lemma ane_disconnect:
  "aggregatorNeverExpires w \<Longrightarrow> aggregatorNeverExpires (snd (disconnect env w prov p))"
  by (auto simp: disconnect_def ane_delete split: option.splits)

lemma ane_syncWhoopRefresh:
  "aggregatorNeverExpires w \<Longrightarrow>
   aggregatorNeverExpires (snd (syncWhoopRefresh env w uid tok))"
  by (simp add: syncWhoopRefresh_def callRefresh_def Let_def ane_update
      split: option.splits sum.splits)

lemma ane_syncWhoopReal:
  "aggregatorNeverExpires w \<Longrightarrow> aggregatorNeverExpires (snd (syncWhoopReal env w uid a))"
  by (simp add: syncWhoopReal_def Let_def split: option.splits)

lemma ane_syncWhoopDemo:
  "aggregatorNeverExpires w \<Longrightarrow> aggregatorNeverExpires (snd (syncWhoopDemo env w uid))"
  by (simp add: syncWhoopDemo_def Let_def ane_update split: option.splits)

lemma ane_syncWhoop:
  assumes "aggregatorNeverExpires w"
  shows "aggregatorNeverExpires (snd (syncWhoop env w uid tok))"
proof -
  obtain r w1 where r: "syncWhoopRefresh env w uid tok = (r, w1)" by force
  have w1: "aggregatorNeverExpires w1"
    using ane_syncWhoopRefresh [OF assms, of env uid tok] r by simp
  show ?thesis
  proof (cases r)
    case (Inl e)
    then show ?thesis using r w1 by (simp add: syncWhoop_def)
  next
    case (Inr a)
    obtain m w2 where m: "syncWhoopReal env w1 uid a = (m, w2)" by force
    have w2: "aggregatorNeverExpires w2"
      using ane_syncWhoopReal [OF w1, of env uid a] m by simp
    show ?thesis
      using r Inr m w2 ane_syncWhoopDemo [OF w2, of env uid]
      by (cases m) (simp_all add: syncWhoop_def)
  qed
qed

lemma ane_syncApple:
  "aggregatorNeverExpires w \<Longrightarrow> aggregatorNeverExpires (snd (syncApple env w uid tok))"
  by (simp add: syncApple_def Let_def split: option.splits)

lemma sync_blocks:
  "snd (sync env w p) = w \<or>
   (\<exists>uid. snd (sync env w p) = snd (whoopBlock env w uid) \<or>
          snd (sync env w p) = snd (appleBlock env (snd (whoopBlock env w uid)) uid))"
proof (cases p)
  case None
  then show ?thesis by (simp add: sync_def)
next
  case (Some uid)
  obtain rs1 w1 where b1: "whoopBlock env w uid = (rs1, w1)" by force
  obtain rs2 w2 where b2: "appleBlock env w1 uid = (rs2, w2)" by force
  have "snd (sync env w p) = w \<or> snd (sync env w p) = w1 \<or> snd (sync env w p) = w2"
    using Some b1 b2
    by (simp add: sync_def whoopBlock_def appleBlock_def split: option.splits)
  then show ?thesis using b1 b2 by (metis snd_conv)
qed

lemma ane_whoopBlock:
  "aggregatorNeverExpires w \<Longrightarrow> aggregatorNeverExpires (snd (whoopBlock env w uid))"
  by (simp add: whoopBlock_def ane_syncWhoop split: option.splits)

lemma ane_appleBlock:
  "aggregatorNeverExpires w \<Longrightarrow> aggregatorNeverExpires (snd (appleBlock env w uid))"
  by (simp add: appleBlock_def ane_syncApple split: option.splits)

lemma ane_sync:
  assumes "aggregatorNeverExpires w"
  shows "aggregatorNeverExpires (snd (sync env w p))"
  using sync_blocks [of env w p] assms ane_whoopBlock ane_appleBlock by auto

lemma rzf_frame [simp]:
  "recordsZeroFree (updateWearableToken w uid p u) = recordsZeroFree w"
  "recordsZeroFree (createWearableToken w ins) = recordsZeroFree w"
  "recordsZeroFree (deleteWearableToken w uid p) = recordsZeroFree w"
  "recordsZeroFree (w\<lparr>providerCalls := cs\<rparr>) = recordsZeroFree w"
  "recordsZeroFree (w\<lparr>clock := c\<rparr>) = recordsZeroFree w"
  by (simp_all add: recordsZeroFree_def updateWearableToken_def createWearableToken_def
      deleteWearableToken_def)

lemma rzf_create [simp]:
  "recordsZeroFree (createWearableData w uid m) =
     (recordsZeroFree w \<and> zeroFree (rowOf uid (clock w) m))"
  by (auto simp: recordsZeroFree_def wearableData_createWearableData)

lemma zeroFree_nullable [simp]: "zeroFree (rowOf uid t (nullable td))"
  by (simp add: zeroFree_def rowOf_def nullable_def orNull_def split: option.splits)

lemma zeroFree_within:
  assumes "withinRanges hi m"
  shows "zeroFree (rowOf uid t m)"
  using assms
  by (auto simp: withinRanges_def inRange_def zeroFree_def rowOf_def split: option.splits)

lemma zeroFree_simulated:
  "unitDraws d \<Longrightarrow> zeroFree (rowOf uid t (simulated dev d))"
  by (rule zeroFree_within [OF simulated_ok])

lemma zeroFree_mockData:
  "unitDraws d \<Longrightarrow> zeroFree (rowOf uid t (mockData d))"
  by (rule zeroFree_within [OF mockData_ok])

lemma rzf_whoopDemoAuth:
  "recordsZeroFree w \<Longrightarrow> unitDraws (mathRandom env DemoAuthDraws) \<Longrightarrow>
   recordsZeroFree (snd (whoopDemoAuth env w p))"
  by (simp add: whoopDemoAuth_def zeroFree_simulated split: option.splits)

lemma rzf_handleAuthentication:
  "recordsZeroFree w \<Longrightarrow> recordsZeroFree (snd (handleAuthentication env w a r n x))"
  by (simp add: handleAuthentication_def Let_def split: option.splits)

lemma rzf_appleMockAuth:
  "recordsZeroFree w \<Longrightarrow> unitDraws (mathRandom env MockAuthDraws) \<Longrightarrow>
   recordsZeroFree (snd (appleMockAuth env w p))"
  by (simp add: appleMockAuth_def Let_def zeroFree_simulated split: option.splits)

lemma rzf_appleCallback:
  "recordsZeroFree w \<Longrightarrow> recordsZeroFree (snd (appleCallback env w b))"
  by (simp add: appleCallback_def split: option.splits)

lemma rzf_terraWebhook:
  "recordsZeroFree w \<Longrightarrow> recordsZeroFree (snd (terraWebhook env w ev))"
  by (simp add: terraWebhook_def split: option.splits sum.splits)

lemma rzf_disconnect:
  "recordsZeroFree w \<Longrightarrow> recordsZeroFree (snd (disconnect env w prov p))"
  by (simp add: disconnect_def split: option.splits)

lemma rzf_syncWhoopRefresh:
  "recordsZeroFree w \<Longrightarrow> recordsZeroFree (snd (syncWhoopRefresh env w uid tok))"
  by (simp add: syncWhoopRefresh_def callRefresh_def Let_def split: option.splits sum.splits)

lemma rzf_syncWhoopReal:
  "recordsZeroFree w \<Longrightarrow> recordsZeroFree (snd (syncWhoopReal env w uid a))"
  by (simp add: syncWhoopReal_def Let_def split: option.splits)

lemma rzf_syncWhoopDemo:
  "recordsZeroFree w \<Longrightarrow> unitDraws (mathRandom env SyncDemoDraws) \<Longrightarrow>
   recordsZeroFree (snd (syncWhoopDemo env w uid))"
  by (simp add: syncWhoopDemo_def Let_def demoData_def zeroFree_simulated split: option.splits)

lemma rzf_syncWhoop:
  assumes "recordsZeroFree w" and d: "unitDraws (mathRandom env SyncDemoDraws)"
  shows "recordsZeroFree (snd (syncWhoop env w uid tok))"
proof -
  obtain r w1 where r: "syncWhoopRefresh env w uid tok = (r, w1)" by force
  have w1: "recordsZeroFree w1"
    using rzf_syncWhoopRefresh [OF assms(1), of env uid tok] r by simp
  show ?thesis
  proof (cases r)
    case (Inl e)
    then show ?thesis using r w1 by (simp add: syncWhoop_def)
  next
    case (Inr a)
    obtain m w2 where m: "syncWhoopReal env w1 uid a = (m, w2)" by force
    have w2: "recordsZeroFree w2"
      using rzf_syncWhoopReal [OF w1, of env uid a] m by simp
    show ?thesis
      using r Inr m w2 rzf_syncWhoopDemo [OF w2 d, of uid]
      by (cases m) (simp_all add: syncWhoop_def)
  qed
qed

lemma rzf_whoopBlock:
  "recordsZeroFree w \<Longrightarrow> unitDraws (mathRandom env SyncDemoDraws) \<Longrightarrow>
   recordsZeroFree (snd (whoopBlock env w uid))"
  by (simp add: whoopBlock_def rzf_syncWhoop split: option.splits)

lemma rzf_appleBlock:
  "recordsZeroFree w \<Longrightarrow> unitDraws (mathRandom env SyncMockDraws) \<Longrightarrow>
   recordsZeroFree (snd (appleBlock env w uid))"
  by (simp add: appleBlock_def syncApple_def Let_def zeroFree_mockData split: option.splits)

lemma rzf_sync:
  assumes "recordsZeroFree w" and "unitDraws (mathRandom env SyncDemoDraws)"
    and "unitDraws (mathRandom env SyncMockDraws)"
  shows "recordsZeroFree (snd (sync env w p))"
  using sync_blocks [of env w p] assms rzf_whoopBlock rzf_appleBlock by auto

lemma reachable_invariants:
  assumes "reachable w"
  shows "aggregatorNeverExpires w \<and> recordsZeroFree w"
  using assms
proof (induction rule: reachable.induct)
  case (initial t)
  show ?case by (simp add: aggregatorNeverExpires_def recordsZeroFree_def)
next
  case (elapse w n)
  then show ?case by simp
next
  case (whoopDemoAuth w env p)
  then show ?case by (simp add: ane_whoopDemoAuth rzf_whoopDemoAuth)
next
  case (handleAuthentication w env a r n x)
  then show ?case by (simp add: ane_handleAuthentication rzf_handleAuthentication)
next
  case (appleMockAuth w env p)
  then show ?case by (simp add: ane_appleMockAuth rzf_appleMockAuth)
next
  case (appleCallback w env b)
  then show ?case by (simp add: ane_appleCallback rzf_appleCallback)
next
  case (terraWebhook w env ev)
  then show ?case by (simp add: ane_terraWebhook rzf_terraWebhook)
next
  case (disconnect w env prov p)
  then show ?case by (simp add: ane_disconnect rzf_disconnect)
next
  case (sync w env p)
  then show ?case by (simp add: ane_sync rzf_sync)
qed

lemma find_snoc:
  "find P (xs @ [x]) = (case find P xs of None \<Rightarrow> if P x then Some x else None | Some y \<Rightarrow> Some y)"
  by (induction xs) simp_all

lemma getWearableToken_create:
  "getWearableToken (createWearableToken w ins) uid p =
     (case getWearableToken w uid p of
        Some t \<Rightarrow> Some t
      | None \<Rightarrow>
          if userId ins = uid \<and> provider ins = p
          then Some \<lparr>userId = userId ins, provider = provider ins,
                     accessToken = accessToken ins, refreshToken = refreshToken ins,
                     externalUserId = externalUserId ins, expiresAt = expiresAt ins,
                     updatedAt = clock w\<rparr>
          else None)"
  by (simp add: getWearableToken_def createWearableToken_def find_snoc split: option.splits)

lemma appleMockAuth_creates:
  assumes "getWearableToken w uid ''apple_health'' = None"
    and "getWearableToken (snd (appleMockAuth env w p)) uid ''apple_health'' = Some t"
  shows "refreshToken t = None \<and> expiresAt t = None"
  using assms
  by (auto simp: appleMockAuth_def Let_def getWearableToken_create getWearableToken_update
      split: option.splits if_splits)

lemma appleCallback_creates:
  assumes "getWearableToken w uid ''apple_health'' = None"
    and "getWearableToken (snd (appleCallback env w b)) uid ''apple_health'' = Some t"
  shows "refreshToken t = None \<and> expiresAt t = None"
  using assms
  by (auto simp: appleCallback_def getWearableToken_create getWearableToken_update
      split: option.splits if_splits)

lemma wearableStatus_apple:
  assumes "wearableStatus env w p = (200, StatusBody s)"
  shows "needsReauth (apple_health s) = False"
  using assms
  by (auto simp: wearableStatus_def Let_def split: option.splits if_splits)

subsection \<open>Aggregator Credentials\<close>

text \<open>
  C10: in every reachable state each aggregator Credential has \<open>refreshToken\<close> and
  \<open>expiresAt\<close> null and is therefore stale at no time; a Credential that the mock
  authorisation or the callback creates for a user without one has both fields null; and
  whenever the status endpoint reports a status, \<open>needsReauth\<close> of the aggregator is
  false.
\<close>

theorem aggregator_never_stale:
  "(reachable w \<longrightarrow>
      (\<forall>t \<in> set (wearableTokens w).
         provider t = ''apple_health'' \<longrightarrow>
           refreshToken t = None \<and> expiresAt t = None \<and> \<not> isStale now t)) \<and>
   (getWearableToken w uid ''apple_health'' = None \<longrightarrow>
      (\<forall>t. getWearableToken (snd (appleMockAuth env w p)) uid ''apple_health'' = Some t \<longrightarrow>
           refreshToken t = None \<and> expiresAt t = None) \<and>
      (\<forall>t. getWearableToken (snd (appleCallback env w b)) uid ''apple_health'' = Some t \<longrightarrow>
           refreshToken t = None \<and> expiresAt t = None)) \<and>
   (\<forall>s. wearableStatus env w p = (200, StatusBody s) \<longrightarrow>
        needsReauth (apple_health s) = False)"
proof -
  have "\<forall>t \<in> set (wearableTokens w).
         provider t = ''apple_health'' \<longrightarrow>
           refreshToken t = None \<and> expiresAt t = None \<and> \<not> isStale now t"
    if "reachable w"
    using reachable_invariants [OF that]
    by (auto simp: aggregatorNeverExpires_def isStale_def)
  then show ?thesis
    using appleMockAuth_creates appleCallback_creates wearableStatus_apple by blast
qed

lemma reachable_unboundWorld: "reachable unboundWorld"
proof -
  have "reachable emptyWorld" by (simp add: emptyWorld_def reachable.initial)
  then have "reachable (snd (appleCallback offlineEnv emptyWorld unboundCallback))"
    by (rule reachable.appleCallback)
  moreover have "snd (appleCallback offlineEnv emptyWorld unboundCallback) = unboundWorld"
    by (simp add: inputs_defs appleCallback_def createWearableToken_def getWearableToken_def)
  ultimately show ?thesis by simp
qed

theorem aggregator_never_stale_witness:
  "reachable unboundWorld \<and>
   map provider (wearableTokens unboundWorld) = [''apple_health''] \<and>
   \<not> isStale 9999999 unboundToken1 \<and>
   getWearableToken emptyWorld 1 ''apple_health'' = None \<and>
   getWearableToken (snd (appleCallback offlineEnv emptyWorld unboundCallback)) 1
     ''apple_health'' = Some unboundToken1 \<and>
   refreshToken unboundToken1 = None \<and> expiresAt unboundToken1 = None \<and>
   wearableStatus offlineEnv unboundWorld (Some 1) =
     (200, StatusBody
        \<lparr>whoop = \<lparr>connected_p = False, lastSync = None, needsReauth = False\<rparr>,
         apple_health = \<lparr>connected_p = True, lastSync = Some 2000, needsReauth = False\<rparr>\<rparr>)"
proof -
  have s: "wearableStatus offlineEnv unboundWorld (Some 1) =
     (200, StatusBody
        \<lparr>whoop = \<lparr>connected_p = False, lastSync = None, needsReauth = False\<rparr>,
         apple_health = \<lparr>connected_p = True, lastSync = Some 2000, needsReauth = False\<rparr>\<rparr>)"
    by (simp add: inputs_defs wearableStatus_def getWearableToken_def)
  have c: "getWearableToken (snd (appleCallback offlineEnv emptyWorld unboundCallback)) 1
     ''apple_health'' = Some unboundToken1"
    by (simp add: inputs_defs appleCallback_def createWearableToken_def getWearableToken_def)
  have e: "getWearableToken emptyWorld 1 ''apple_health'' = None"
    by (simp add: emptyWorld_def getWearableToken_def)
  show ?thesis
    using aggregator_never_stale [of unboundWorld 9999999 1 offlineEnv "Some 1" unboundCallback]
      aggregator_never_stale [of emptyWorld 9999999 1 offlineEnv "Some 1" unboundCallback]
      reachable_unboundWorld s c e
    by (simp add: unboundWorld_def unboundToken1_def)
qed

lemma memCreateWearableData_zeroFree: "zeroFree (fst (memCreateWearableData s t uid m))"
  by (simp add: memCreateWearableData_def Let_def zeroFree_def orNull_def split: option.splits)

lemma documented_within:
  assumes "withinRanges hi m"
  shows "documentedFields (rowOf uid t m)"
  using assms
  by (auto simp: withinRanges_def inRange_def documentedFields_def rowOf_def
      split: option.splits)

subsection \<open>Stored records\<close>

text \<open>
  C8, amended: in every state reachable through the sync, the webhook and the
  authorisation routes, each record has \<open>sleepScore\<close>, \<open>hrv\<close> and \<open>heartRate\<close> either
  absent or different from 0, and so has each row built by \<open>MemStorage\<close>. Simulated
  records lie within the documented ranges of the data model. A value taken from the
  transformer is stored as null when it is 0 or missing and as delivered otherwise,
  without a range check; the strain level is stored as delivered, 0 included.
\<close>

theorem records_zero_free:
  "(reachable w \<longrightarrow>
      (\<forall>r \<in> set (wearableData w).
         sleepScore r \<noteq> Some 0 \<and> hrv r \<noteq> Some 0 \<and> heartRate r \<noteq> Some 0)) \<and>
   zeroFree (fst (memCreateWearableData s t uid m)) \<and>
   (unitDraws d \<longrightarrow>
      documentedFields (rowOf uid t (simulated dev d)) \<and>
      documentedFields (rowOf uid t (mockData d))) \<and>
   sleepScore (nullable td) = (if sleepScore td = Some 0 then None else sleepScore td) \<and>
   hrv (nullable td) = (if hrv td = Some 0 then None else hrv td) \<and>
   heartRate (nullable td) = (if heartRate td = Some 0 then None else heartRate td) \<and>
   strainLevel (nullable td) = strainLevel td"
proof -
  have "\<forall>r \<in> set (wearableData w).
         sleepScore r \<noteq> Some 0 \<and> hrv r \<noteq> Some 0 \<and> heartRate r \<noteq> Some 0"
    if "reachable w"
    using reachable_invariants [OF that] by (simp add: recordsZeroFree_def zeroFree_def)
  moreover have "sleepScore (nullable td) = (if sleepScore td = Some 0 then None else sleepScore td)"
    and "hrv (nullable td) = (if hrv td = Some 0 then None else hrv td)"
    and "heartRate (nullable td) = (if heartRate td = Some 0 then None else heartRate td)"
    and "strainLevel (nullable td) = strainLevel td"
    by (simp_all add: nullable_def orNull_def split: option.splits)
  ultimately show ?thesis
    using memCreateWearableData_zeroFree documented_within [OF simulated_ok]
      documented_within [OF mockData_ok]
    by blast
qed

lemma reachable_zeroWorld:
  "reachable (snd (terraWebhook zeroEnv unboundWorld (sleepEvent (Some \<lparr>user_id = 1\<rparr>))))"
  using reachable_unboundWorld by (rule reachable.terraWebhook)

theorem records_zero_free_witness:
  "reachable (snd (terraWebhook zeroEnv unboundWorld (sleepEvent (Some \<lparr>user_id = 1\<rparr>)))) \<and>
   wearableData (snd (terraWebhook zeroEnv unboundWorld (sleepEvent (Some \<lparr>user_id = 1\<rparr>)))) =
     [rowOf 1 2000 \<lparr>deviceType = ''apple_watch'', sleepScore = None, sleepDuration = None,
                     strainLevel = Some 0, hrv = None, heartRate = None\<rparr>] \<and>
   map sleepScore
     (wearableData (snd (terraWebhook zeroEnv unboundWorld (sleepEvent (Some \<lparr>user_id = 1\<rparr>))))) =
     [None] \<and>
   unitDraws edgeDraws \<and> documentedFields (rowOf 1 2000 (mockData edgeDraws))"
proof -
  have d: "wearableData (snd (terraWebhook zeroEnv unboundWorld
                               (sleepEvent (Some \<lparr>user_id = 1\<rparr>)))) =
     [rowOf 1 2000 \<lparr>deviceType = ''apple_watch'', sleepScore = None, sleepDuration = None,
                     strainLevel = Some 0, hrv = None, heartRate = None\<rparr>]"
    by (simp add: inputs_defs zeroEnv_def zeroReadings_def terraWebhook_def sleepEvent_def
        getWearableToken_def createWearableData_def nullable_def orNull_def orNullText_def
        rowOf_def)
  have u: "unitDraws edgeDraws" by (simp add: unitDraws_def unitDraw_def edgeDraws_def)
  show ?thesis
    using records_zero_free
      [where w = "snd (terraWebhook zeroEnv unboundWorld (sleepEvent (Some \<lparr>user_id = 1\<rparr>)))"
         and d = edgeDraws and uid = 1 and t = 2000]
      reachable_zeroWorld d u
    by (simp add: rowOf_def)
qed

text \<open>
  C8, as stated, fails: the tracker's fetch succeeds and the transformer delivers a sleep
  score of 150 and an HRV of -5, which the sync persists as they are.
\<close>

theorem records_range_counterexample:
  "fetchMetrics wildEnv ''a2'' = Some wildReadings \<and>
   wearableData (snd (sync wildEnv bothWorld (Some 1))) =
     [rowOf 1 5250 \<lparr>deviceType = ''whoop'', sleepScore = Some 150, sleepDuration = None,
                     strainLevel = Some 0, hrv = Some (- 5), heartRate = None\<rparr>,
      rowOf 1 5250 (mockData edgeDraws)] \<and>
   \<not> documentedFields
       (rowOf 1 5250 \<lparr>deviceType = ''whoop'', sleepScore = Some 150, sleepDuration = None,
                       strainLevel = Some 0, hrv = Some (- 5), heartRate = None\<rparr>)"
  by (simp add: inputs_defs sync_defs wildEnv_def wildReadings_def nullable_def orNull_def
      orNullText_def rowOf_def documentedFields_def Let_def)

end
